theory Spec2Isabelle
  imports Main "HOL-Library.Sublist"
begin

text \<open>
  A model of the space routes of the Terra Discover API: the slug generator
  \<open>ensureUniqueSlug\<close> and the handlers that create, update, delete and read a Space.
  Each handler is a function from the store and the request to the new store and the
  response; an early \<open>return\<close> of the source is a branch that gives the response, and the
  \<open>try\<close>/\<open>catch\<close> around a handler is the case distinction on the result of its write.
\<close>

section \<open>Data model\<close>

text \<open>
  The store is the Prisma schema of the repository: a table of spaces and the three
  taxonomy tables (space types, categories, features). A key of a JavaScript object
  that may be missing is an \<open>optional\<close> value (\<open>Undefined\<close> is the missing key); a
  value that may be \<open>null\<close> is an \<open>option\<close> (\<open>None\<close> is \<open>null\<close>). JSON documents
  are opaque.
\<close>

datatype 'a optional = Undefined | Defined 'a

typedecl json

text \<open>
  Model \<open>Space\<close> of the schema. The two many-to-many relations are kept in the row as
  the lists of the connected category and feature ids.
\<close>

record space =
  space_id :: string
  name :: string
  slug :: string
  alternateNames :: "string list"
  description :: string
  activities :: "string list"
  historicalContext :: "string option"
  architecturalStyle :: "string option"
  operatingHours :: "json option"
  entranceFee :: "json option"
  contactInfo :: "json option"
  accessibility :: "json option"
  typeId :: string
  categories :: "string list"
  features :: "string list"
  submittedById :: string
  createdAt :: nat
  updatedAt :: nat

text \<open>Models \<open>SpaceType\<close>, \<open>SpaceCategory\<close>, \<open>SpaceFeature\<close>: a row without its id.\<close>

record taxonomy =
  tx_name :: string
  tx_description :: "string option"

text \<open>
  The taxonomy tables are maps from the primary key to the row. The table of spaces is
  a list of rows, searched in order.
\<close>

record db =
  spaces :: "space list"
  spaceTypes :: "string \<rightharpoonup> taxonomy"
  spaceCategories :: "string \<rightharpoonup> taxonomy"
  spaceFeatures :: "string \<rightharpoonup> taxonomy"

section \<open>Slug generation: \<open>ensureUniqueSlug\<close>\<close>

text \<open>
  \<open>slugify\<close> is the npm package of that name, which is not among the sources; it is a
  parameter of the model. Its second argument is the options object (\<open>None\<close> when the
  call passes none).
\<close>

record slugify_options =
  lower :: bool
  strict :: bool

type_synonym slugify = "string \<Rightarrow> slugify_options option \<Rightarrow> string"

text \<open>
  The template literal \<open>`${slugify(baseName)}-${counter}`\<close> prints the counter in
  decimal. The counter is a JavaScript number that starts at 1 and is incremented by 1;
  it is exact, and printed without exponent, below \<open>2^53\<close>, and is modelled as a
  natural number.
\<close>

definition digit :: "nat \<Rightarrow> char" where
  "digit n = ''0123456789'' ! n"

fun decimal :: "nat \<Rightarrow> string" where
  "decimal n = (if n < 10 then [digit n] else decimal (n div 10) @ [digit (n mod 10)])"

declare decimal.simps [simp del]

definition retry_slug :: "slugify \<Rightarrow> string \<Rightarrow> nat \<Rightarrow> string" where
  "retry_slug slugify baseName counter = slugify baseName None @ ''-'' @ decimal counter"

text \<open>
  Modelled from the spec: the Prisma client (\<open>lib/db\<close>) is not among the sources. This
  is its point lookup by the unique field \<open>slug\<close>,
  \<open>prisma.space.findUnique({ where: { slug } })\<close>.
\<close>

definition findUnique_slug :: "db \<Rightarrow> string \<Rightarrow> space option" where
  "findUnique_slug d s = find (\<lambda>r. slug r = s) (spaces d)"

text \<open>
  Bookkeeping for the termination of the retry loop: the counters from \<open>c\<close> on whose
  candidate is in use, and the number of iterations the loop can still make.
\<close>

definition pending :: "slugify \<Rightarrow> db \<Rightarrow> string \<Rightarrow> nat \<Rightarrow> nat set" where
  "pending slugify d baseName c =
     {j. c \<le> j \<and> retry_slug slugify baseName j \<in> slug ` set (spaces d)}"

definition attempts_left :: "slugify \<Rightarrow> db \<Rightarrow> string \<Rightarrow> string \<Rightarrow> nat \<Rightarrow> nat" where
  "attempts_left slugify d baseName slg c =
     (if slg \<in> slug ` set (spaces d) then card (pending slugify d baseName c) + 2 else 1)"

lemma findUnique_slug_None: "findUnique_slug d s = None \<longleftrightarrow> s \<notin> slug ` set (spaces d)"
  by (auto simp: findUnique_slug_def find_None_iff)

lemma digit_inj: "a < 10 \<Longrightarrow> b < 10 \<Longrightarrow> digit a = digit b \<Longrightarrow> a = b"
proof -
  assume a: "a < 10" and b: "b < 10" and e: "digit a = digit b"
  have d: "distinct ''0123456789''" by simp
  have "a < length ''0123456789''" "b < length ''0123456789''" using a b by simp_all
  with d e show "a = b" unfolding digit_def by (simp only: nth_eq_iff_index_eq)
qed

lemma decimal_not_Nil: "decimal n \<noteq> []"
  by (subst decimal.simps) simp

lemma decimal_inj: "decimal m = decimal n \<Longrightarrow> m = n"
proof (induction m arbitrary: n rule: decimal.induct)
  case (1 m)
  show ?case
  proof (cases "m < 10")
    case True
    note mlt = this
    show ?thesis
    proof (cases "n < 10")
      case True
      with mlt 1(2) show ?thesis
        by (simp add: decimal.simps[of m] decimal.simps[of n] digit_inj)
    next
      case False
      with mlt 1(2) show ?thesis
        by (simp add: decimal.simps[of m] decimal.simps[of n]
            decimal_not_Nil decimal_not_Nil[THEN not_sym])
    qed
  next
    case False
    note mge = this
    show ?thesis
    proof (cases "n < 10")
      case True
      with mge 1(2) show ?thesis
        by (simp add: decimal.simps[of m] decimal.simps[of n]
            decimal_not_Nil decimal_not_Nil[THEN not_sym])
    next
      case False
      with mge 1(2) have e1: "decimal (m div 10) = decimal (n div 10)"
        and e2: "digit (m mod 10) = digit (n mod 10)"
        by (simp_all add: decimal.simps[of m] decimal.simps[of n])
      from 1(1)[OF mge e1] have "m div 10 = n div 10" .
      moreover from e2 have "m mod 10 = n mod 10" by (simp add: digit_inj)
      ultimately show ?thesis by (metis div_mult_mod_eq)
    qed
  qed
qed

lemma retry_slug_inj: "inj (retry_slug slugify baseName)"
  by (rule injI) (simp add: retry_slug_def decimal_inj)

lemma finite_pending: "finite (pending slugify d baseName c)"
proof -
  have "pending slugify d baseName c \<subseteq> retry_slug slugify baseName -` (slug ` set (spaces d))"
    by (auto simp: pending_def)
  moreover have "finite (retry_slug slugify baseName -` (slug ` set (spaces d)))"
    by (rule finite_vimageI) (simp_all add: retry_slug_inj)
  ultimately show ?thesis by (rule finite_subset)
qed

lemma pending_step:
  "pending slugify d baseName c =
     (if retry_slug slugify baseName c \<in> slug ` set (spaces d)
      then insert c (pending slugify d baseName (Suc c))
      else pending slugify d baseName (Suc c))"
proof -
  have "\<And>j. c \<le> j \<longleftrightarrow> j = c \<or> Suc c \<le> j" by auto
  then show ?thesis by (auto simp: pending_def)
qed

lemma card_pending_step:
  "retry_slug slugify baseName c \<in> slug ` set (spaces d) \<Longrightarrow>
   card (pending slugify d baseName c) = Suc (card (pending slugify d baseName (Suc c)))"
proof -
  assume u: "retry_slug slugify baseName c \<in> slug ` set (spaces d)"
  have "c \<notin> pending slugify d baseName (Suc c)" by (simp add: pending_def)
  with u show ?thesis
    by (subst pending_step) (simp add: finite_pending)
qed

lemma attempts_left_decreases:
  "findUnique_slug d slg \<noteq> None \<Longrightarrow>
   attempts_left slugify d baseName (retry_slug slugify baseName c) (Suc c)
     < attempts_left slugify d baseName slg c"
  by (simp add: attempts_left_def findUnique_slug_None card_pending_step)

lemma card_pending_le: "card (pending slugify d baseName c) \<le> length (spaces d)"
proof -
  have "retry_slug slugify baseName ` pending slugify d baseName c \<subseteq> slug ` set (spaces d)"
    by (auto simp: pending_def)
  then have "card (retry_slug slugify baseName ` pending slugify d baseName c)
      \<le> card (slug ` set (spaces d))"
    by (intro card_mono) simp_all
  moreover have "card (retry_slug slugify baseName ` pending slugify d baseName c)
      = card (pending slugify d baseName c)"
    by (intro card_image inj_on_subset[OF retry_slug_inj]) simp
  moreover have "card (slug ` set (spaces d)) \<le> length (spaces d)"
    by (rule order_trans[OF card_image_le card_length]) simp
  ultimately show ?thesis by simp
qed

text \<open>
  The \<open>while (!isUnique)\<close> loop of \<open>ensureUniqueSlug\<close>. Its state is the candidate
  \<open>slug\<close> and the \<open>counter\<close>; it returns the state in which it stops.
\<close>

function slug_loop :: "slugify \<Rightarrow> db \<Rightarrow> string \<Rightarrow> string \<Rightarrow> nat \<Rightarrow> string \<times> nat" where
  "slug_loop slugify d baseName slg counter =
     (if findUnique_slug d slg = None then (slg, counter)
      else slug_loop slugify d baseName (retry_slug slugify baseName counter) (counter + 1))"
  by pat_completeness auto
termination
  by (relation "measure (\<lambda>(slugify, d, baseName, slg, c). attempts_left slugify d baseName slg c)")
    (simp_all add: attempts_left_decreases)

declare slug_loop.simps [simp del]

definition ensureUniqueSlug :: "slugify \<Rightarrow> db \<Rightarrow> string \<Rightarrow> string" where
  "ensureUniqueSlug slugify d baseName =
     fst (slug_loop slugify d baseName
            (slugify baseName (Some \<lparr>lower = True, strict = True\<rparr>)) 1)"

text \<open>
  The same loop with a budget of iterations: each unit of the budget pays for one
  execution of the loop body, and \<open>None\<close> says that the budget ran out.
\<close>

fun slug_loop_within :: "nat \<Rightarrow> slugify \<Rightarrow> db \<Rightarrow> string \<Rightarrow> string \<Rightarrow> nat \<Rightarrow> (string \<times> nat) option" where
  "slug_loop_within 0 slugify d baseName slg counter = None"
| "slug_loop_within (Suc n) slugify d baseName slg counter =
     (if findUnique_slug d slg = None then Some (slg, counter)
      else slug_loop_within n slugify d baseName (retry_slug slugify baseName counter) (counter + 1))"

definition ensureUniqueSlug_within :: "nat \<Rightarrow> slugify \<Rightarrow> db \<Rightarrow> string \<Rightarrow> string option" where
  "ensureUniqueSlug_within n slugify d baseName =
     map_option fst (slug_loop_within n slugify d baseName
            (slugify baseName (Some \<lparr>lower = True, strict = True\<rparr>)) 1)"

lemma slug_loop_unused: "findUnique_slug d (fst (slug_loop slugify d baseName slg c)) = None"
  by (induction slugify d baseName slg c rule: slug_loop.induct)
    (subst slug_loop.simps, simp)

lemma slug_loop_first: "findUnique_slug d slg = None \<Longrightarrow> slug_loop slugify d baseName slg c = (slg, c)"
  by (subst slug_loop.simps) simp

lemma slug_loop_next:
  "findUnique_slug d slg \<noteq> None \<Longrightarrow>
   slug_loop slugify d baseName slg c
     = slug_loop slugify d baseName (retry_slug slugify baseName c) (c + 1)"
  by (subst slug_loop.simps) (simp del: not_None_eq)

lemma slug_loop_retry:
  "findUnique_slug d slg \<noteq> None \<Longrightarrow>
   \<exists>k\<ge>c. slug_loop slugify d baseName slg c = (retry_slug slugify baseName k, Suc k) \<and>
     (\<forall>j. c \<le> j \<and> j < k \<longrightarrow> findUnique_slug d (retry_slug slugify baseName j) \<noteq> None)"
proof (induction slugify d baseName slg c rule: slug_loop.induct)
  case (1 slugify d baseName slg c)
  from 1(2) have step: "slug_loop slugify d baseName slg c
      = slug_loop slugify d baseName (retry_slug slugify baseName c) (c + 1)"
    by (rule slug_loop_next)
  show ?case
  proof (cases "findUnique_slug d (retry_slug slugify baseName c) = None")
    case True
    then have "slug_loop slugify d baseName slg c = (retry_slug slugify baseName c, Suc c)"
      using step by (simp add: slug_loop_first)
    then show ?thesis by (intro exI[of _ c]) auto
  next
    case False
    from 1(1)[OF 1(2) False] obtain k where k: "c + 1 \<le> k"
      "slug_loop slugify d baseName (retry_slug slugify baseName c) (c + 1)
         = (retry_slug slugify baseName k, Suc k)"
      "\<forall>j. c + 1 \<le> j \<and> j < k \<longrightarrow> findUnique_slug d (retry_slug slugify baseName j) \<noteq> None"
      by blast
    have "\<forall>j. c \<le> j \<and> j < k \<longrightarrow> findUnique_slug d (retry_slug slugify baseName j) \<noteq> None"
    proof (intro allI impI)
      fix j assume j: "c \<le> j \<and> j < k"
      show "findUnique_slug d (retry_slug slugify baseName j) \<noteq> None"
      proof (cases "j = c")
        case True
        with False show ?thesis by simp
      next
        case False
        with j have "c + 1 \<le> j \<and> j < k" by simp
        with k(3) show ?thesis by blast
      qed
    qed
    with k(1,2) step show ?thesis by (intro exI[of _ k]) simp
  qed
qed

lemma slug_loop_within_enough:
  "attempts_left slugify d baseName slg c \<le> n \<Longrightarrow>
   slug_loop_within n slugify d baseName slg c = Some (slug_loop slugify d baseName slg c)"
proof (induction n arbitrary: slg c)
  case 0
  then show ?case by (simp add: attempts_left_def split: if_splits)
next
  case (Suc n)
  show ?case
  proof (cases "findUnique_slug d slg = None")
    case True
    then show ?thesis by (simp add: slug_loop_first)
  next
    case False
    from attempts_left_decreases[OF False, of slugify baseName c] Suc.prems
    have "attempts_left slugify d baseName (retry_slug slugify baseName c) (Suc c) \<le> n"
      by simp
    from Suc.IH[OF this] False show ?thesis
      by (simp add: slug_loop_next del: not_None_eq)
  qed
qed

lemma slug_loop_counter_ge: "c \<le> snd (slug_loop slugify d baseName slg c)"
proof (induction slugify d baseName slg c rule: slug_loop.induct)
  case (1 slugify d baseName slg c)
  show ?case
  proof (cases "findUnique_slug d slg = None")
    case True
    then show ?thesis by (simp add: slug_loop_first)
  next
    case False
    from 1[OF False] show ?thesis by (simp add: slug_loop_next[OF False])
  qed
qed

lemma slug_loop_within_iterations:
  "slug_loop_within n slugify d baseName slg c =
     (if snd (slug_loop slugify d baseName slg c) - c < n
      then Some (slug_loop slugify d baseName slg c) else None)"
proof (induction n arbitrary: slg c)
  case 0
  then show ?case by simp
next
  case (Suc n)
  show ?case
  proof (cases "findUnique_slug d slg = None")
    case True
    then show ?thesis by (simp add: slug_loop_first)
  next
    case False
    have "Suc c \<le> snd (slug_loop slugify d baseName (retry_slug slugify baseName c) (Suc c))"
      by (rule slug_loop_counter_ge)
    then have "snd (slug_loop slugify d baseName (retry_slug slugify baseName c) (Suc c)) - Suc c < n
      \<longleftrightarrow> snd (slug_loop slugify d baseName (retry_slug slugify baseName c) (Suc c)) - c < Suc n"
      by arith
    with False Suc.IH[of "retry_slug slugify baseName c" "Suc c"] show ?thesis
      by (simp add: slug_loop_next del: not_None_eq)
  qed
qed

lemma attempts_left_le: "attempts_left slugify d baseName slg c \<le> length (spaces d) + 2"
  using card_pending_le[of slugify d baseName c] by (simp add: attempts_left_def)


section \<open>Requests, responses and errors\<close>

text \<open>The authenticated caller that the middleware \<open>authenticateUser\<close> stores in the context.\<close>

record user =
  user_id :: string
  username :: string
  email :: string

text \<open>\<open>CreateSpaceRequestSchema\<close>: \<open>name\<close> and \<open>typeId\<close> are required.\<close>

record create_payload =
  c_name :: string
  c_alternateNames :: "string list optional"
  c_description :: "string option optional"
  c_activities :: "string list optional"
  c_historicalContext :: "string option optional"
  c_architecturalStyle :: "string option optional"
  c_operatingHours :: "json option optional"
  c_entranceFee :: "json option optional"
  c_contactInfo :: "json option optional"
  c_accessibility :: "json option optional"
  c_typeId :: string
  c_categoryIds :: "string list optional"
  c_featureIds :: "string list optional"

text \<open>\<open>UpdateSpaceRequestSchema = CreateSpaceRequestSchema.partial()\<close>: every key may be missing.\<close>

record update_payload =
  u_name :: "string optional"
  u_alternateNames :: "string list optional"
  u_description :: "string option optional"
  u_activities :: "string list optional"
  u_historicalContext :: "string option optional"
  u_architecturalStyle :: "string option optional"
  u_operatingHours :: "json option optional"
  u_entranceFee :: "json option optional"
  u_contactInfo :: "json option optional"
  u_accessibility :: "json option optional"
  u_typeId :: "string optional"
  u_categoryIds :: "string list optional"
  u_featureIds :: "string list optional"

text \<open>
  The object \<open>updateData\<close> that the PATCH handler builds: the copied scalar keys, the
  new \<open>slug\<close>, \<open>type: { connect: { id } }\<close>, \<open>categories: { set: [...] }\<close> and
  \<open>features: { set: [...] }\<close>.
\<close>

record updateData =
  d_name :: "string optional"
  d_alternateNames :: "string list optional"
  d_description :: "string option optional"
  d_activities :: "string list optional"
  d_historicalContext :: "string option optional"
  d_architecturalStyle :: "string option optional"
  d_operatingHours :: "json option optional"
  d_entranceFee :: "json option optional"
  d_contactInfo :: "json option optional"
  d_accessibility :: "json option optional"
  d_slug :: "string optional"
  d_type :: "string optional"
  d_categories :: "string list optional"
  d_features :: "string list optional"

text \<open>
  The Space as the API returns it: the row, with the relations flattened to the names of
  the connected categories and features.
\<close>

record formattedSpace =
  f_space :: space
  f_categories :: "string list"
  f_features :: "string list"

text \<open>
  A response is \<open>c.json(formattedSpace, status)\<close>, \<open>c.json({ message, code }, status)\<close>
  or \<open>c.body(null, status)\<close>.
\<close>

datatype response =
    SpaceJson formattedSpace nat
  | ErrorJson string nat nat
  | NoBody nat

text \<open>
  What a call of the persistence layer can throw: a \<open>PrismaClientKnownRequestError\<close>
  with its code and message, any other \<open>Error\<close> with its message, or a value that is
  not an \<open>Error\<close>.
\<close>

datatype raw_error =
    PrismaClientKnownRequestError string string
  | Error string
  | NonError

text \<open>
  Modelled from the spec: what the store decides and the handler does not. The time of
  the write, the id that the store generates for a new row (\<open>@default(cuid())\<close>), and
  a failure that the store raises at the write for a reason outside the modelled state
  (a concurrent request, an outage): a write either succeeds or raises a unique
  violation, a related-record-missing failure, or another error.
\<close>

record env =
  now :: nat
  cuid :: string
  writeFault :: "raw_error option"

section \<open>The persistence layer\<close>

text \<open>
  The Prisma client (\<open>lib/db\<close> and the generated client) is not among the sources. The
  operations that the handlers call are modelled from the persistence contract of the
  spec (point lookup by id and by unique field, batched lookup by a list of ids, insert
  with relations, partial update with relations, delete) on the tables of the Prisma
  schema. The lookups always answer; only a write can raise.
\<close>

text \<open>
  Modelled from the spec: the lookup by id or slug,
  \<open>prisma.space.findFirst({ where: { OR: [{ id: identifier }, { slug: identifier }] } })\<close>.
\<close>

definition findFirst_id_or_slug :: "db \<Rightarrow> string \<Rightarrow> space option" where
  "findFirst_id_or_slug d identifier =
     find (\<lambda>r. space_id r = identifier \<or> slug r = identifier) (spaces d)"

text \<open>
  Modelled from the spec: the point lookup by id,
  \<open>prisma.space.findUnique({ where: { id } })\<close>.
\<close>

definition findUnique_id :: "db \<Rightarrow> string \<Rightarrow> space option" where
  "findUnique_id d i = find (\<lambda>r. space_id r = i) (spaces d)"

text \<open>
  Modelled from the spec: the batched lookup by a list of ids,
  \<open>findMany({ where: { id: { in: ids } }, select: { id: true } })\<close> on a taxonomy table.
  It gives the ids of the rows whose id is among \<open>ids\<close>, each row once.
\<close>

definition findMany_ids :: "(string \<rightharpoonup> taxonomy) \<Rightarrow> string list \<Rightarrow> string list" where
  "findMany_ids table ids = filter (\<lambda>i. table i \<noteq> None) (remdups ids)"

text \<open>
  Modelled from the spec: the names of the connected rows of a relation,
  \<open>include: { categories: { select: { name: true } } }\<close>, which the handlers flatten
  with \<open>.map(c => c.name)\<close>.
\<close>

definition names_of :: "(string \<rightharpoonup> taxonomy) \<Rightarrow> string list \<Rightarrow> string list" where
  "names_of table ids = List.map_filter (\<lambda>i. map_option tx_name (table i)) ids"

definition formatSpace :: "db \<Rightarrow> space \<Rightarrow> formattedSpace" where
  "formatSpace d r =
     \<lparr>f_space = r,
      f_categories = names_of (spaceCategories d) (categories r),
      f_features = names_of (spaceFeatures d) (features r)\<rparr>"

text \<open>
  Modelled from the spec: the two failures of a write that the spec names. A unique
  violation (code \<open>P2002\<close>) is raised for the unique index on \<open>slug\<close> and for the
  primary key, a related-record-missing failure (code \<open>P2025\<close>) when a row that the
  write needs or connects does not exist.
\<close>

definition unique_violation :: raw_error where
  "unique_violation = PrismaClientKnownRequestError ''P2002'' ''Unique constraint failed''"

definition record_not_found :: raw_error where
  "record_not_found = PrismaClientKnownRequestError ''P2025'' ''Required record not found''"

definition all_exist :: "(string \<rightharpoonup> taxonomy) \<Rightarrow> string list \<Rightarrow> bool" where
  "all_exist table ids = list_all (\<lambda>i. table i \<noteq> None) ids"

text \<open>
  Modelled from the spec: insert with relations, \<open>prisma.space.create\<close>, one atomic
  insert of the row with its relations.
\<close>

definition space_create :: "env \<Rightarrow> db \<Rightarrow> space \<Rightarrow> raw_error + (db \<times> space)" where
  "space_create e d row =
     (case writeFault e of
        Some error \<Rightarrow> Inl error
      | None \<Rightarrow>
          if findUnique_slug d (slug row) \<noteq> None then Inl unique_violation
          else if findUnique_id d (space_id row) \<noteq> None then Inl unique_violation
          else if spaceTypes d (typeId row) = None then Inl record_not_found
          else if \<not> all_exist (spaceCategories d) (categories row) then Inl record_not_found
          else if \<not> all_exist (spaceFeatures d) (features row) then Inl record_not_found
          else Inr (d\<lparr>spaces := spaces d @ [row]\<rparr>, row))"

text \<open>
  Modelled from the spec: the effect of \<open>updateData\<close> on a row. A key that is present
  replaces the stored value, \<open>set\<close> replaces the whole relation, and \<open>updatedAt\<close> is
  set (\<open>@updatedAt\<close>). A \<open>null\<close> description never gets here: \<open>space_update\<close>
  refuses it first.
\<close>

definition assign :: "'a optional \<Rightarrow> 'a \<Rightarrow> 'a" where
  "assign new old = (case new of Defined v \<Rightarrow> v | Undefined \<Rightarrow> old)"

definition apply_update :: "nat \<Rightarrow> updateData \<Rightarrow> space \<Rightarrow> space" where
  "apply_update t u r =
     r\<lparr>name := assign (d_name u) (name r),
       slug := assign (d_slug u) (slug r),
       alternateNames := assign (d_alternateNames u) (alternateNames r),
       description :=
         (case d_description u of Defined (Some v) \<Rightarrow> v | Defined None \<Rightarrow> description r
          | Undefined \<Rightarrow> description r),
       activities := assign (d_activities u) (activities r),
       historicalContext := assign (d_historicalContext u) (historicalContext r),
       architecturalStyle := assign (d_architecturalStyle u) (architecturalStyle r),
       operatingHours := assign (d_operatingHours u) (operatingHours r),
       entranceFee := assign (d_entranceFee u) (entranceFee r),
       contactInfo := assign (d_contactInfo u) (contactInfo r),
       accessibility := assign (d_accessibility u) (accessibility r),
       typeId := assign (d_type u) (typeId r),
       categories := assign (d_categories u) (categories r),
       features := assign (d_features u) (features r),
       updatedAt := t\<rparr>"

text \<open>
  Modelled from the spec: partial update with relations,
  \<open>prisma.space.update({ where: { id }, data: updateData })\<close>. The column
  \<open>description\<close> is required, so the store refuses a \<open>null\<close> for it with an error
  that is not a \<open>PrismaClientKnownRequestError\<close>.
\<close>

definition slug_taken_by_other :: "db \<Rightarrow> string \<Rightarrow> string optional \<Rightarrow> bool" where
  "slug_taken_by_other d i new =
     (case new of
        Undefined \<Rightarrow> False
      | Defined s \<Rightarrow> find (\<lambda>r. slug r = s \<and> space_id r \<noteq> i) (spaces d) \<noteq> None)"

definition targets_exist :: "(string \<rightharpoonup> taxonomy) \<Rightarrow> string list optional \<Rightarrow> bool" where
  "targets_exist table new = (case new of Undefined \<Rightarrow> True | Defined ids \<Rightarrow> all_exist table ids)"

definition space_update :: "env \<Rightarrow> db \<Rightarrow> string \<Rightarrow> updateData \<Rightarrow> raw_error + (db \<times> space)" where
  "space_update e d i u =
     (case writeFault e of
        Some error \<Rightarrow> Inl error
      | None \<Rightarrow>
          if d_description u = Defined None
          then Inl (Error ''Argument description must not be null.'')
          else
            (case findUnique_id d i of
               None \<Rightarrow> Inl record_not_found
             | Some r \<Rightarrow>
                 if slug_taken_by_other d i (d_slug u) then Inl unique_violation
                 else if \<not> targets_exist (spaceTypes d) (case d_type u of Undefined \<Rightarrow> Undefined | Defined t \<Rightarrow> Defined [t])
                 then Inl record_not_found
                 else if \<not> targets_exist (spaceCategories d) (d_categories u) then Inl record_not_found
                 else if \<not> targets_exist (spaceFeatures d) (d_features u) then Inl record_not_found
                 else
                   Inr (d\<lparr>spaces := map (\<lambda>x. if space_id x = i then apply_update (now e) u x else x)
                                       (spaces d)\<rparr>,
                        apply_update (now e) u r)))"

text \<open>Modelled from the spec: delete, \<open>prisma.space.delete({ where: { id } })\<close>.\<close>

definition space_delete :: "env \<Rightarrow> db \<Rightarrow> string \<Rightarrow> raw_error + db" where
  "space_delete e d i =
     (case writeFault e of
        Some error \<Rightarrow> Inl error
      | None \<Rightarrow>
          (case findUnique_id d i of
             None \<Rightarrow> Inl record_not_found
           | Some r \<Rightarrow> Inr (d\<lparr>spaces := filter (\<lambda>x. space_id x \<noteq> i) (spaces d)\<rparr>)))"

section \<open>The handlers of the space routes\<close>

text \<open>\<open>Array.prototype.join\<close>\<close>

fun join :: "string \<Rightarrow> string list \<Rightarrow> string" where
  "join sep [] = []"
| "join sep [x] = x"
| "join sep (x # y # ys) = x @ sep @ join sep (y # ys)"

text \<open>\<open>String.prototype.includes\<close>\<close>

fun includes_str :: "string \<Rightarrow> string \<Rightarrow> bool" where
  "includes_str [] sub = (sub = [])"
| "includes_str (c # cs) sub = (prefix sub (c # cs) \<or> includes_str cs sub)"

text \<open>
  The validation of a list of category or feature ids, written four times in the
  handlers: when the list is not empty and the batched read finds fewer rows than the
  list is long, the handler returns; \<open>find_missing\<close> gives the \<open>missingIds\<close> of that
  return, and \<open>None\<close> when the handler goes on.
\<close>

definition find_missing :: "(string \<rightharpoonup> taxonomy) \<Rightarrow> string list \<Rightarrow> string list option" where
  "find_missing table ids =
     (if length ids > 0 then
        (let found = findMany_ids table ids
         in if length found \<noteq> length ids
            then Some (filter (\<lambda>i. i \<notin> set found) ids)
            else None)
      else None)"

definition ids_not_found :: "string \<Rightarrow> string list \<Rightarrow> response" where
  "ids_not_found kind missingIds =
     ErrorJson (''One or more '' @ kind @ '' IDs not found: '' @ join '', '' missingIds @ ''.'')
       404 404"

definition type_not_found :: "string \<Rightarrow> response" where
  "type_not_found t =
     ErrorJson (''Space Type with ID '' @ [CHR 0x27] @ t @ [CHR 0x27] @ '' not found.'') 404 404"

subsection \<open>POST /\<close>

text \<open>\<open>spaceData.description || ""\<close>\<close>

definition or_empty :: "string option optional \<Rightarrow> string" where
  "or_empty v =
     (case v of
        Undefined \<Rightarrow> ''''
      | Defined None \<Rightarrow> ''''
      | Defined (Some s) \<Rightarrow> if s = '''' then '''' else s)"

definition or_null :: "'a option optional \<Rightarrow> 'a option" where
  "or_null v = (case v of Undefined \<Rightarrow> None | Defined x \<Rightarrow> x)"

definition or_nil :: "'a list optional \<Rightarrow> 'a list" where
  "or_nil v = (case v of Undefined \<Rightarrow> [] | Defined xs \<Rightarrow> xs)"

text \<open>The \<open>data\<close> of \<open>prisma.space.create\<close>, as the row that the store inserts.\<close>

definition create_data :: "env \<Rightarrow> string \<Rightarrow> user \<Rightarrow> create_payload \<Rightarrow> space" where
  "create_data e slg authenticatedUser payload =
     \<lparr>space_id = cuid e,
      name = c_name payload,
      slug = slg,
      alternateNames = or_nil (c_alternateNames payload),
      description = or_empty (c_description payload),
      activities = or_nil (c_activities payload),
      historicalContext = or_null (c_historicalContext payload),
      architecturalStyle = or_null (c_architecturalStyle payload),
      operatingHours = or_null (c_operatingHours payload),
      entranceFee = or_null (c_entranceFee payload),
      contactInfo = or_null (c_contactInfo payload),
      accessibility = or_null (c_accessibility payload),
      typeId = c_typeId payload,
      categories = or_nil (c_categoryIds payload),
      features = or_nil (c_featureIds payload),
      submittedById = user_id authenticatedUser,
      createdAt = now e,
      updatedAt = now e\<rparr>"

definition create_catch :: "raw_error \<Rightarrow> response" where
  "create_catch error =
     ErrorJson ''Failed to create space due to an internal server error.'' 500 500"

definition createSpace :: "slugify \<Rightarrow> env \<Rightarrow> db \<Rightarrow> user \<Rightarrow> create_payload \<Rightarrow> db \<times> response" where
  "createSpace slugify e d authenticatedUser payload =
     (if spaceTypes d (c_typeId payload) = None
      then (d, type_not_found (c_typeId payload))
      else
        (case find_missing (spaceCategories d) (or_nil (c_categoryIds payload)) of
           Some missingIds \<Rightarrow> (d, ids_not_found ''Category'' missingIds)
         | None \<Rightarrow>
             (case find_missing (spaceFeatures d) (or_nil (c_featureIds payload)) of
                Some missingIds \<Rightarrow> (d, ids_not_found ''Feature'' missingIds)
              | None \<Rightarrow>
                  (let slg = ensureUniqueSlug slugify d (c_name payload)
                   in case space_create e d (create_data e slg authenticatedUser payload) of
                        Inl error \<Rightarrow> (d, create_catch error)
                      | Inr (d', created) \<Rightarrow> (d', SpaceJson (formatSpace d' created) 201)))))"

subsection \<open>PATCH /{identifier}\<close>

text \<open>
  The \<open>for (const key_str in payload)\<close> loop: every key of the payload except
  \<open>typeId\<close>, \<open>categoryIds\<close> and \<open>featureIds\<close> is copied.
\<close>

definition copy_fields :: "update_payload \<Rightarrow> updateData" where
  "copy_fields payload =
     \<lparr>d_name = u_name payload,
      d_alternateNames = u_alternateNames payload,
      d_description = u_description payload,
      d_activities = u_activities payload,
      d_historicalContext = u_historicalContext payload,
      d_architecturalStyle = u_architecturalStyle payload,
      d_operatingHours = u_operatingHours payload,
      d_entranceFee = u_entranceFee payload,
      d_contactInfo = u_contactInfo payload,
      d_accessibility = u_accessibility payload,
      d_slug = Undefined,
      d_type = Undefined,
      d_categories = Undefined,
      d_features = Undefined\<rparr>"

text \<open>\<open>if (payload.name !== undefined && payload.name !== existingSpace.name)\<close>\<close>

definition with_slug :: "slugify \<Rightarrow> db \<Rightarrow> space \<Rightarrow> update_payload \<Rightarrow> updateData \<Rightarrow> updateData" where
  "with_slug slugify d existingSpace payload u =
     (case u_name payload of
        Undefined \<Rightarrow> u
      | Defined n \<Rightarrow>
          if n \<noteq> name existingSpace
          then u\<lparr>d_slug := Defined (ensureUniqueSlug slugify d n)\<rparr>
          else u)"

text \<open>\<open>if (payload.typeId !== undefined)\<close>\<close>

definition with_type :: "db \<Rightarrow> update_payload \<Rightarrow> updateData \<Rightarrow> response + updateData" where
  "with_type d payload u =
     (case u_typeId payload of
        Undefined \<Rightarrow> Inr u
      | Defined t \<Rightarrow>
          if spaceTypes d t = None then Inl (type_not_found t)
          else Inr (u\<lparr>d_type := Defined t\<rparr>))"

text \<open>\<open>if (payload.categoryIds !== undefined)\<close>\<close>

definition with_categories :: "db \<Rightarrow> update_payload \<Rightarrow> updateData \<Rightarrow> response + updateData" where
  "with_categories d payload u =
     (case u_categoryIds payload of
        Undefined \<Rightarrow> Inr u
      | Defined ids \<Rightarrow>
          (case find_missing (spaceCategories d) ids of
             Some missingIds \<Rightarrow> Inl (ids_not_found ''Category'' missingIds)
           | None \<Rightarrow> Inr (u\<lparr>d_categories := Defined ids\<rparr>)))"

text \<open>\<open>if (payload.featureIds !== undefined)\<close>\<close>

definition with_features :: "db \<Rightarrow> update_payload \<Rightarrow> updateData \<Rightarrow> response + updateData" where
  "with_features d payload u =
     (case u_featureIds payload of
        Undefined \<Rightarrow> Inr u
      | Defined ids \<Rightarrow>
          (case find_missing (spaceFeatures d) ids of
             Some missingIds \<Rightarrow> Inl (ids_not_found ''Feature'' missingIds)
           | None \<Rightarrow> Inr (u\<lparr>d_features := Defined ids\<rparr>)))"

text \<open>\<open>if ("description" in payload && (payload.description === null || ...))\<close>\<close>

definition with_description :: "update_payload \<Rightarrow> updateData \<Rightarrow> updateData" where
  "with_description payload u =
     (case u_description payload of
        Undefined \<Rightarrow> u
      | Defined None \<Rightarrow> u\<lparr>d_description := Defined (Some '''')\<rparr>
      | Defined (Some s) \<Rightarrow> u)"

text \<open>
  The handler from the copy of the keys to the last statement before the write: either
  an early return with a response, or the \<open>updateData\<close> to persist.
\<close>

definition prepareUpdate :: "slugify \<Rightarrow> db \<Rightarrow> space \<Rightarrow> update_payload \<Rightarrow> response + updateData" where
  "prepareUpdate slugify d existingSpace payload =
     (case with_type d payload (with_slug slugify d existingSpace payload (copy_fields payload)) of
        Inl early \<Rightarrow> Inl early
      | Inr u1 \<Rightarrow>
          (case with_categories d payload u1 of
             Inl early \<Rightarrow> Inl early
           | Inr u2 \<Rightarrow>
               (case with_features d payload u2 of
                  Inl early \<Rightarrow> Inl early
                | Inr u3 \<Rightarrow> Inr (with_description payload u3))))"

fun update_catch :: "raw_error \<Rightarrow> response" where
  "update_catch (PrismaClientKnownRequestError code message) =
     (if code = ''P2002''
      then ErrorJson ''A space with this name or slug already exists.'' 409 409
      else if code = ''P2025''
      then ErrorJson ''One or more related records (type, category, feature) not found.'' 404 404
      else ErrorJson ''Database operation failed unexpectedly.'' 500 500)"
| "update_catch (Error message) =
     (if includes_str message ''Forbidden'' then ErrorJson message 403 403
      else if includes_str message ''not found'' then ErrorJson message 404 404
      else if includes_str message ''Validation error'' \<or> includes_str message ''Invalid input''
      then ErrorJson ''Invalid input data provided.'' 400 400
      else ErrorJson ''An unexpected server error occurred.'' 500 500)"
| "update_catch NonError = ErrorJson ''An entirely unexpected error occurred.'' 500 500"

definition updateSpace ::
  "slugify \<Rightarrow> env \<Rightarrow> db \<Rightarrow> user \<Rightarrow> string \<Rightarrow> update_payload \<Rightarrow> db \<times> response" where
  "updateSpace slugify e d authenticatedUser identifier payload =
     (case findFirst_id_or_slug d identifier of
        None \<Rightarrow> (d, ErrorJson ''Space not found.'' 404 404)
      | Some existingSpace \<Rightarrow>
          if submittedById existingSpace \<noteq> user_id authenticatedUser
          then (d, ErrorJson ''Forbidden: You do not have permission to update this space.'' 403 403)
          else
            (case prepareUpdate slugify d existingSpace payload of
               Inl early \<Rightarrow> (d, early)
             | Inr u \<Rightarrow>
                 (case space_update e d (space_id existingSpace) u of
                    Inl error \<Rightarrow> (d, update_catch error)
                  | Inr (d', updatedSpace) \<Rightarrow> (d', SpaceJson (formatSpace d' updatedSpace) 200))))"

subsection \<open>DELETE /{id}\<close>

fun delete_catch :: "raw_error \<Rightarrow> response" where
  "delete_catch (PrismaClientKnownRequestError code message) =
     (if code = ''P2025'' then ErrorJson ''Space not found.'' 404 404
      else ErrorJson ''Failed to delete space due to an internal server error.'' 500 500)"
| "delete_catch (Error message) =
     ErrorJson ''Failed to delete space due to an internal server error.'' 500 500"
| "delete_catch NonError =
     ErrorJson ''Failed to delete space due to an internal server error.'' 500 500"

text \<open>The caller is \<open>None\<close> when the context holds no user (\<open>if (!authenticatedUser)\<close>).\<close>

definition deleteSpace :: "env \<Rightarrow> db \<Rightarrow> user option \<Rightarrow> string \<Rightarrow> db \<times> response" where
  "deleteSpace e d authenticatedUser i =
     (case authenticatedUser of
        None \<Rightarrow> (d, ErrorJson ''Authentication required.'' 401 401)
      | Some caller \<Rightarrow>
          (case findUnique_id d i of
             None \<Rightarrow> (d, ErrorJson ''Space not found.'' 404 404)
           | Some spaceToDelete \<Rightarrow>
               if submittedById spaceToDelete \<noteq> user_id caller
               then (d, ErrorJson ''Forbidden: You do not have permission to delete this space.''
                          403 403)
               else
                 (case space_delete e d i of
                    Inl error \<Rightarrow> (d, delete_catch error)
                  | Inr d' \<Rightarrow> (d', NoBody 204))))"

subsection \<open>GET /{identifier}\<close>

text \<open>
  The read of one Space by id or slug. The names of the type and of the submitter, which
  this route also includes in its answer, are left out.
\<close>

definition getSpace :: "db \<Rightarrow> string \<Rightarrow> response" where
  "getSpace d identifier =
     (case findFirst_id_or_slug d identifier of
        None \<Rightarrow> ErrorJson ''Space not found.'' 404 404
      | Some found \<Rightarrow> SpaceJson (formatSpace d found) 200)"

section \<open>The handlers when every call of the persistence layer can raise\<close>

text \<open>
  Each handler runs inside \<open>try\<close>, so its \<open>catch\<close> also answers an error that a lookup
  raises: the lookup of the Space, the lookup of the type, the batched lookups of the
  categories and of the features, and every lookup that \<open>ensureUniqueSlug\<close> makes. A
  lookup is named by its place in the handler, and a lookup of the slug loop by the value
  of \<open>counter\<close> when it is made. The handlers of this section make the same calls in the
  same order as those of the previous section, and are equal to them when no lookup
  raises.
\<close>

datatype lookup = FindSpace | SlugCheck nat | FindType | FindCategories | FindFeatures

text \<open>
  Modelled from the spec: which lookups of a request raise, and with which error (the
  empty map when none does); the spec lets every operation of the store either succeed
  or raise.
\<close>

type_synonym faults = "lookup \<rightharpoonup> raw_error"

text \<open>
  A handler body is a sequence of steps. A step throws (\<open>Raise\<close>), returns a response
  from the handler before any write (\<open>Return\<close>), or goes on with a value
  (\<open>Continue\<close>).
\<close>

datatype 'a step = Raise raw_error | Return response | Continue 'a

definition next_step :: "'a step \<Rightarrow> ('a \<Rightarrow> 'b step) \<Rightarrow> 'b step" where
  "next_step s k = (case s of Raise error \<Rightarrow> Raise error | Return r \<Rightarrow> Return r | Continue x \<Rightarrow> k x)"

text \<open>\<open>await\<close> of a lookup: it raises when the store raises, and gives the answer otherwise.\<close>

definition await :: "faults \<Rightarrow> lookup \<Rightarrow> 'a \<Rightarrow> 'a step" where
  "await raising c answer =
     (case raising c of Some error \<Rightarrow> Raise error | None \<Rightarrow> Continue answer)"

text \<open>\<open>await\<close> of a write.\<close>

definition await_write :: "raw_error + 'a \<Rightarrow> 'a step" where
  "await_write w = (case w of Inl error \<Rightarrow> Raise error | Inr x \<Rightarrow> Continue x)"

text \<open>The loop of \<open>ensureUniqueSlug\<close>, where \<open>prisma.space.findUnique\<close> can raise.\<close>

function slug_loop_raising ::
  "faults \<Rightarrow> slugify \<Rightarrow> db \<Rightarrow> string \<Rightarrow> string \<Rightarrow> nat \<Rightarrow> (string \<times> nat) step" where
  "slug_loop_raising raising slugify d baseName slg counter =
     (case raising (SlugCheck counter) of
        Some error \<Rightarrow> Raise error
      | None \<Rightarrow>
          if findUnique_slug d slg = None then Continue (slg, counter)
          else slug_loop_raising raising slugify d baseName
                 (retry_slug slugify baseName counter) (counter + 1))"
  by pat_completeness auto
termination
  by (relation "measure (\<lambda>(raising, slugify, d, baseName, slg, c).
        attempts_left slugify d baseName slg c)")
    (simp_all add: attempts_left_decreases)

declare slug_loop_raising.simps [simp del]

definition ensureUniqueSlug_raising :: "faults \<Rightarrow> slugify \<Rightarrow> db \<Rightarrow> string \<Rightarrow> string step" where
  "ensureUniqueSlug_raising raising slugify d baseName =
     next_step (slug_loop_raising raising slugify d baseName
                  (slugify baseName (Some \<lparr>lower = True, strict = True\<rparr>)) 1)
       (\<lambda>final. Continue (fst final))"

text \<open>
  The validation of a list of category or feature ids: the batched read is made, and can
  raise, only when the list is not empty.
\<close>

definition check_ids :: "faults \<Rightarrow> lookup \<Rightarrow> string \<Rightarrow> (string \<rightharpoonup> taxonomy) \<Rightarrow> string list \<Rightarrow> unit step" where
  "check_ids raising c kind table ids =
     (if length ids > 0 then
        next_step (await raising c (findMany_ids table ids)) (\<lambda>found.
          if length found \<noteq> length ids
          then Return (ids_not_found kind (filter (\<lambda>i. i \<notin> set found) ids))
          else Continue ())
      else Continue ())"

subsection \<open>POST /\<close>

definition create_steps ::
  "faults \<Rightarrow> slugify \<Rightarrow> env \<Rightarrow> db \<Rightarrow> user \<Rightarrow> create_payload \<Rightarrow> (db \<times> response) step" where
  "create_steps raising slugify e d authenticatedUser payload =
     next_step (await raising FindType (spaceTypes d (c_typeId payload))) (\<lambda>typeExist.
       if typeExist = None then Return (type_not_found (c_typeId payload))
       else
         next_step (check_ids raising FindCategories ''Category'' (spaceCategories d)
                      (or_nil (c_categoryIds payload))) (\<lambda>_.
         next_step (check_ids raising FindFeatures ''Feature'' (spaceFeatures d)
                      (or_nil (c_featureIds payload))) (\<lambda>_.
         next_step (ensureUniqueSlug_raising raising slugify d (c_name payload)) (\<lambda>slg.
         next_step (await_write (space_create e d (create_data e slg authenticatedUser payload)))
           (\<lambda>(d', created). Continue (d', SpaceJson (formatSpace d' created) 201))))))"


subsection \<open>PATCH /{identifier}\<close>

definition slug_step ::
  "faults \<Rightarrow> slugify \<Rightarrow> db \<Rightarrow> space \<Rightarrow> update_payload \<Rightarrow> updateData \<Rightarrow> updateData step" where
  "slug_step raising slugify d existingSpace payload u =
     (case u_name payload of
        Undefined \<Rightarrow> Continue u
      | Defined n \<Rightarrow>
          if n \<noteq> name existingSpace
          then next_step (ensureUniqueSlug_raising raising slugify d n)
                 (\<lambda>newSlug. Continue (u\<lparr>d_slug := Defined newSlug\<rparr>))
          else Continue u)"

definition type_step :: "faults \<Rightarrow> db \<Rightarrow> update_payload \<Rightarrow> updateData \<Rightarrow> updateData step" where
  "type_step raising d payload u =
     (case u_typeId payload of
        Undefined \<Rightarrow> Continue u
      | Defined t \<Rightarrow>
          next_step (await raising FindType (spaceTypes d t)) (\<lambda>typeExist.
            if typeExist = None then Return (type_not_found t)
            else Continue (u\<lparr>d_type := Defined t\<rparr>)))"

definition categories_step :: "faults \<Rightarrow> db \<Rightarrow> update_payload \<Rightarrow> updateData \<Rightarrow> updateData step" where
  "categories_step raising d payload u =
     (case u_categoryIds payload of
        Undefined \<Rightarrow> Continue u
      | Defined ids \<Rightarrow>
          next_step (check_ids raising FindCategories ''Category'' (spaceCategories d) ids)
            (\<lambda>_. Continue (u\<lparr>d_categories := Defined ids\<rparr>)))"

definition features_step :: "faults \<Rightarrow> db \<Rightarrow> update_payload \<Rightarrow> updateData \<Rightarrow> updateData step" where
  "features_step raising d payload u =
     (case u_featureIds payload of
        Undefined \<Rightarrow> Continue u
      | Defined ids \<Rightarrow>
          next_step (check_ids raising FindFeatures ''Feature'' (spaceFeatures d) ids)
            (\<lambda>_. Continue (u\<lparr>d_features := Defined ids\<rparr>)))"

definition update_steps ::
  "faults \<Rightarrow> slugify \<Rightarrow> env \<Rightarrow> db \<Rightarrow> user \<Rightarrow> string \<Rightarrow> update_payload \<Rightarrow> (db \<times> response) step" where
  "update_steps raising slugify e d authenticatedUser identifier payload =
     next_step (await raising FindSpace (findFirst_id_or_slug d identifier)) (\<lambda>found.
       case found of
         None \<Rightarrow> Return (ErrorJson ''Space not found.'' 404 404)
       | Some existingSpace \<Rightarrow>
           if submittedById existingSpace \<noteq> user_id authenticatedUser
           then Return (ErrorJson ''Forbidden: You do not have permission to update this space.''
                          403 403)
           else
             next_step (slug_step raising slugify d existingSpace payload (copy_fields payload)) (\<lambda>u0.
             next_step (type_step raising d payload u0) (\<lambda>u1.
             next_step (categories_step raising d payload u1) (\<lambda>u2.
             next_step (features_step raising d payload u2) (\<lambda>u3.
             next_step (await_write (space_update e d (space_id existingSpace)
                                       (with_description payload u3)))
               (\<lambda>(d', updatedSpace). Continue (d', SpaceJson (formatSpace d' updatedSpace) 200)))))))"

definition updateSpace_route ::
  "faults \<Rightarrow> slugify \<Rightarrow> env \<Rightarrow> db \<Rightarrow> user \<Rightarrow> string \<Rightarrow> update_payload \<Rightarrow> db \<times> response" where
  "updateSpace_route raising slugify e d authenticatedUser identifier payload =
     (case update_steps raising slugify e d authenticatedUser identifier payload of
        Raise error \<Rightarrow> (d, update_catch error)
      | Return early \<Rightarrow> (d, early)
      | Continue result \<Rightarrow> result)"

subsection \<open>DELETE /{id}\<close>

definition delete_steps ::
  "faults \<Rightarrow> env \<Rightarrow> db \<Rightarrow> user option \<Rightarrow> string \<Rightarrow> (db \<times> response) step" where
  "delete_steps raising e d authenticatedUser i =
     (case authenticatedUser of
        None \<Rightarrow> Return (ErrorJson ''Authentication required.'' 401 401)
      | Some caller \<Rightarrow>
          next_step (await raising FindSpace (findUnique_id d i)) (\<lambda>found.
            case found of
              None \<Rightarrow> Return (ErrorJson ''Space not found.'' 404 404)
            | Some spaceToDelete \<Rightarrow>
                if submittedById spaceToDelete \<noteq> user_id caller
                then Return (ErrorJson
                       ''Forbidden: You do not have permission to delete this space.'' 403 403)
                else
                  next_step (await_write (space_delete e d i))
                    (\<lambda>d'. Continue (d', NoBody 204))))"

definition deleteSpace_route :: "faults \<Rightarrow> env \<Rightarrow> db \<Rightarrow> user option \<Rightarrow> string \<Rightarrow> db \<times> response" where
  "deleteSpace_route raising e d authenticatedUser i =
     (case delete_steps raising e d authenticatedUser i of
        Raise error \<Rightarrow> (d, delete_catch error)
      | Return early \<Rightarrow> (d, early)
      | Continue result \<Rightarrow> result)"

text \<open>The primary key of the table of spaces: no two rows have the same id.\<close>

definition primary_key :: "db \<Rightarrow> bool" where
  "primary_key d = distinct (map space_id (spaces d))"

section \<open>Example data\<close>

text \<open>
  An instance of the \<open>slugify\<close> parameter for the examples: on a name made of ASCII
  letters and digits separated by single spaces, the package replaces each space by a
  hyphen, and the option \<open>lower\<close> turns upper case into lower case.
\<close>

definition lower_char :: "char \<Rightarrow> char" where
  "lower_char c =
     (case map_of (zip ''ABCDEFGHIJKLMNOPQRSTUVWXYZ'' ''abcdefghijklmnopqrstuvwxyz'') c of
        Some l \<Rightarrow> l | None \<Rightarrow> c)"

definition slugify_ascii :: slugify where
  "slugify_ascii s opts =
     (let hyphenated = map (\<lambda>c. if c = CHR '' '' then CHR ''-'' else c) s
      in case opts of
           None \<Rightarrow> hyphenated
         | Some options \<Rightarrow> if lower options then map lower_char hyphenated else hyphenated)"

definition example_space :: "string \<Rightarrow> string \<Rightarrow> string \<Rightarrow> string \<Rightarrow> space" where
  "example_space i n s author =
     \<lparr>space_id = i, name = n, slug = s, alternateNames = [], description = ''A park.'',
      activities = [], historicalContext = None, architecturalStyle = None,
      operatingHours = None, entranceFee = None, contactInfo = None, accessibility = None,
      typeId = ''t1'', categories = [''c1''], features = [''f1''], submittedById = author,
      createdAt = 1, updatedAt = 1\<rparr>"

definition example_taxonomy :: "(string \<times> string) list \<Rightarrow> string \<rightharpoonup> taxonomy" where
  "example_taxonomy rows = map_of (map (\<lambda>(i, n). (i, \<lparr>tx_name = n, tx_description = None\<rparr>)) rows)"

definition example_db :: db where
  "example_db =
     \<lparr>spaces = [example_space ''s1'' ''Taman Bungkul'' ''taman-bungkul'' ''u1'',
                example_space ''s2'' ''Taman Bungkul'' ''Taman-Bungkul-1'' ''u2''],
      spaceTypes = example_taxonomy [(''t1'', ''Park''), (''t2'', ''Plaza'')],
      spaceCategories = example_taxonomy [(''c1'', ''Historical''), (''c2'', ''Natural'')],
      spaceFeatures = example_taxonomy [(''f1'', ''Wi-Fi''), (''f2'', ''Playground'')]\<rparr>"

text \<open>
  A store environment without failure, callers, an update that changes nothing, a minimal
  create payload, an update that renames the first example Space to a variant of its own
  name, and a store in which the slug of one Space is the id of another.
\<close>

definition example_env :: env where
  "example_env = \<lparr>now = 2, cuid = ''s3'', writeFault = None\<rparr>"

definition example_user :: "string \<Rightarrow> user" where
  "example_user i = \<lparr>user_id = i, username = ''someone'', email = ''someone@example.com''\<rparr>"

definition no_changes :: update_payload where
  "no_changes =
     \<lparr>u_name = Undefined, u_alternateNames = Undefined, u_description = Undefined,
      u_activities = Undefined, u_historicalContext = Undefined,
      u_architecturalStyle = Undefined, u_operatingHours = Undefined,
      u_entranceFee = Undefined, u_contactInfo = Undefined, u_accessibility = Undefined,
      u_typeId = Undefined, u_categoryIds = Undefined, u_featureIds = Undefined\<rparr>"

definition example_create :: "string \<Rightarrow> create_payload" where
  "example_create n =
     \<lparr>c_name = n, c_alternateNames = Undefined, c_description = Undefined,
      c_activities = Undefined, c_historicalContext = Undefined,
      c_architecturalStyle = Undefined, c_operatingHours = Undefined,
      c_entranceFee = Undefined, c_contactInfo = Undefined, c_accessibility = Undefined,
      c_typeId = ''t1'', c_categoryIds = Undefined, c_featureIds = Undefined\<rparr>"

definition rename_payload :: update_payload where
  "rename_payload =
     no_changes\<lparr>u_name := Defined ''taman bungkul'', u_description := Defined None,
                u_categoryIds := Defined [], u_featureIds := Defined [''f2'', ''f1'']\<rparr>"

definition clash_db :: db where
  "clash_db =
     example_db\<lparr>spaces := [example_space ''s1'' ''Taman Bungkul'' ''taman-bungkul'' ''u1'',
                            example_space ''s2'' ''s1'' ''s1'' ''u1'']\<rparr>"




definition full_create :: "json \<Rightarrow> create_payload" where
  "full_create hours =
     (example_create ''Kebun Bibit'')
       \<lparr>c_alternateNames := Defined [''Bibit Park''],
        c_description := Defined (Some ''A nursery garden.''),
        c_activities := Defined [''walking''],
        c_historicalContext := Defined (Some ''Opened in 1950.''),
        c_architecturalStyle := Defined None,
        c_operatingHours := Defined (Some hours),
        c_entranceFee := Defined None,
        c_categoryIds := Defined [''c2'', ''c1''],
        c_featureIds := Defined [''f2'']\<rparr>"

section \<open>Facts about the store and the handlers\<close>

lemma find_missing_Some:
  assumes "\<exists>i\<in>set ids. table i = None"
  shows "find_missing table ids = Some (filter (\<lambda>i. table i = None) ids)"
proof -
  from assms obtain m where m: "m \<in> set ids" "table m = None" by blast
  then have ne: "length ids > 0" by (cases ids) auto
  have "length (findMany_ids table ids) < length (remdups ids)"
    unfolding findMany_ids_def using m by (intro length_filter_less[of m]) auto
  also have "\<dots> \<le> length ids" by (rule length_remdups_leq)
  finally have lt: "length (findMany_ids table ids) \<noteq> length ids" by simp
  have "filter (\<lambda>i. i \<notin> set (findMany_ids table ids)) ids = filter (\<lambda>i. table i = None) ids"
    by (rule filter_cong) (auto simp: findMany_ids_def)
  with ne lt show ?thesis by (simp add: find_missing_def Let_def)
qed


lemma find_missing_NoneD:
  assumes "find_missing table ids = None"
  shows "distinct ids \<and> (\<forall>i\<in>set ids. table i \<noteq> None)"
proof -
  have all: "\<forall>i\<in>set ids. table i \<noteq> None"
  proof (rule ccontr)
    assume "\<not> ?thesis"
    then have "\<exists>i\<in>set ids. table i = None" by auto
    from find_missing_Some[OF this] assms show False by simp
  qed
  then have f: "findMany_ids table ids = remdups ids"
    by (simp add: findMany_ids_def)
  have "length (remdups ids) = length ids"
    using assms f by (cases ids) (auto simp: find_missing_def Let_def split: if_splits)
  then have "distinct ids" by (simp add: card_distinct length_remdups_card_conv)
  with all show ?thesis by simp
qed

lemma find_id_map:
  assumes "\<And>x. space_id (g x) = space_id x"
  shows "find (\<lambda>x. space_id x = i) (map (\<lambda>x. if space_id x = i then g x else x) xs)
         = map_option g (find (\<lambda>x. space_id x = i) xs)"
  by (induction xs) (auto simp: assms)

lemma find_id_distinct:
  "distinct (map space_id xs) \<Longrightarrow> x \<in> set xs \<Longrightarrow> find (\<lambda>r. space_id r = space_id x) xs = Some x"
  by (induction xs) (auto simp: rev_image_eqI)

lemma findFirst_in: "findFirst_id_or_slug d ident = Some x \<Longrightarrow> x \<in> set (spaces d)"
  by (auto simp: findFirst_id_or_slug_def find_Some_iff)

lemma findUnique_id_found:
  "primary_key d \<Longrightarrow> findFirst_id_or_slug d ident = Some x \<Longrightarrow> findUnique_id d (space_id x) = Some x"
  by (simp add: primary_key_def findUnique_id_def find_id_distinct findFirst_in)

lemma space_id_apply_update [simp]: "space_id (apply_update t u r) = space_id r"
  by (simp add: apply_update_def)

lemma update_catch_is_error: "\<exists>m c st. update_catch err = ErrorJson m c st"
  by (cases err) auto

lemma delete_catch_is_error: "\<exists>m c st. delete_catch err = ErrorJson m c st"
  by (cases err) auto

lemma with_type_Inr:
  "with_type d payload u = Inr u' \<Longrightarrow> d_type u = Undefined \<Longrightarrow> u' = u\<lparr>d_type := u_typeId payload\<rparr>"
  by (cases "u_typeId payload") (auto simp: with_type_def split: if_splits)

lemma with_categories_Inr:
  "with_categories d payload u = Inr u' \<Longrightarrow> d_categories u = Undefined \<Longrightarrow>
   u' = u\<lparr>d_categories := u_categoryIds payload\<rparr>"
  by (cases "u_categoryIds payload") (auto simp: with_categories_def split: option.splits)

lemma with_features_Inr:
  "with_features d payload u = Inr u' \<Longrightarrow> d_features u = Undefined \<Longrightarrow>
   u' = u\<lparr>d_features := u_featureIds payload\<rparr>"
  by (cases "u_featureIds payload") (auto simp: with_features_def split: option.splits)

lemma with_slug_relations:
  "d_type (with_slug slugify d ex payload (copy_fields payload)) = Undefined"
  "d_categories (with_slug slugify d ex payload (copy_fields payload)) = Undefined"
  "d_features (with_slug slugify d ex payload (copy_fields payload)) = Undefined"
  by (cases "u_name payload"; simp add: with_slug_def copy_fields_def)+

lemma prepareUpdate_Inr:
  assumes "prepareUpdate slugify d ex payload = Inr u"
  shows "u = with_description payload
           ((with_slug slugify d ex payload (copy_fields payload))
              \<lparr>d_type := u_typeId payload, d_categories := u_categoryIds payload,
               d_features := u_featureIds payload\<rparr>)"
proof -
  let ?u0 = "with_slug slugify d ex payload (copy_fields payload)"
  from assms obtain u1 where u1: "with_type d payload ?u0 = Inr u1"
    by (cases "with_type d payload ?u0") (simp_all add: prepareUpdate_def)
  from assms u1 obtain u2 where u2: "with_categories d payload u1 = Inr u2"
    by (cases "with_categories d payload u1") (simp_all add: prepareUpdate_def)
  from assms u1 u2 obtain u3 where u3: "with_features d payload u2 = Inr u3"
    by (cases "with_features d payload u2") (simp_all add: prepareUpdate_def)
  from assms u1 u2 u3 have u: "u = with_description payload u3"
    by (simp add: prepareUpdate_def)
  have e1: "u1 = ?u0\<lparr>d_type := u_typeId payload\<rparr>"
    by (rule with_type_Inr[OF u1]) (rule with_slug_relations)
  have e2: "u2 = u1\<lparr>d_categories := u_categoryIds payload\<rparr>"
    by (rule with_categories_Inr[OF u2]) (simp add: e1 with_slug_relations)
  have e3: "u3 = u2\<lparr>d_features := u_featureIds payload\<rparr>"
    by (rule with_features_Inr[OF u3]) (simp add: e1 e2 with_slug_relations)
  show ?thesis by (simp add: u e3 e2 e1)
qed

lemma prepareUpdate_fields:
  assumes "prepareUpdate slugify d ex payload = Inr u"
  shows "d_categories u = u_categoryIds payload"
    and "d_features u = u_featureIds payload"
    and "d_type u = u_typeId payload"
    and "d_name u = u_name payload"
    and "d_slug u = (case u_name payload of
                       Undefined \<Rightarrow> Undefined
                     | Defined n \<Rightarrow> if n \<noteq> name ex
                                    then Defined (ensureUniqueSlug slugify d n) else Undefined)"
    and "d_description u = (case u_description payload of
                       Undefined \<Rightarrow> Undefined
                     | Defined None \<Rightarrow> Defined (Some [])
                     | Defined (Some s) \<Rightarrow> Defined (Some s))"
  unfolding prepareUpdate_Inr[OF assms]
  by (simp_all add: with_description_def with_slug_def copy_fields_def
      split: optional.split option.split)

lemma with_type_Inl:
  "with_type d payload u = Inl r \<Longrightarrow> \<exists>m. r = ErrorJson m 404 404"
  by (auto simp: with_type_def type_not_found_def split: optional.splits if_splits)

lemma with_categories_Inl:
  "with_categories d payload u = Inl r \<Longrightarrow> \<exists>m. r = ErrorJson m 404 404"
  by (auto simp: with_categories_def ids_not_found_def split: optional.splits option.splits)

lemma with_features_Inl:
  "with_features d payload u = Inl r \<Longrightarrow> \<exists>m. r = ErrorJson m 404 404"
  by (auto simp: with_features_def ids_not_found_def split: optional.splits option.splits)

lemma prepareUpdate_is_error:
  "prepareUpdate slugify d ex payload = Inl r \<Longrightarrow> \<exists>m. r = ErrorJson m 404 404"
  unfolding prepareUpdate_def
  by (auto split: sum.splits dest: with_type_Inl with_categories_Inl with_features_Inl)

lemma updateSpace_success:
  assumes "updateSpace slugify e d caller ident payload = (d', SpaceJson v st)"
    and "findFirst_id_or_slug d ident = Some ex"
  shows "\<exists>u r. submittedById ex = user_id caller \<and>
     prepareUpdate slugify d ex payload = Inr u \<and>
     findUnique_id d (space_id ex) = Some r \<and>
     d' = d\<lparr>spaces := map (\<lambda>x. if space_id x = space_id ex then apply_update (now e) u x else x)
                          (spaces d)\<rparr> \<and>
     v = formatSpace d' (apply_update (now e) u r) \<and> st = 200"
proof -
  from assms have auth: "submittedById ex = user_id caller"
    by (auto simp: updateSpace_def split: if_splits)
  show ?thesis
  proof (cases "prepareUpdate slugify d ex payload")
    case (Inl early)
    with assms auth prepareUpdate_is_error[OF Inl] show ?thesis
      by (auto simp: updateSpace_def)
  next
    case (Inr u)
    show ?thesis
    proof (cases "space_update e d (space_id ex) u")
      case (Inl err)
      with assms auth Inr update_catch_is_error[of err] show ?thesis
        by (auto simp: updateSpace_def)
    next
      case inr: (Inr res)
      obtain d2 r2 where res: "res = (d2, r2)" by (cases res)
      from assms auth Inr inr res have eq: "d' = d2" "v = formatSpace d2 r2" "st = 200"
        by (auto simp: updateSpace_def)
      from inr res have "\<exists>r. findUnique_id d (space_id ex) = Some r \<and>
          d2 = d\<lparr>spaces := map (\<lambda>x. if space_id x = space_id ex then apply_update (now e) u x else x)
                          (spaces d)\<rparr> \<and> r2 = apply_update (now e) u r"
        by (auto simp: space_update_def split: option.splits if_splits)
      with auth Inr eq show ?thesis by auto
    qed
  qed
qed

lemma ensureUniqueSlug_free: "findUnique_slug d (ensureUniqueSlug slugify d n) = None"
  unfolding ensureUniqueSlug_def by (rule slug_loop_unused)

lemma map_update_ids:
  "map space_id (map (\<lambda>x. if space_id x = i then apply_update t u x else x) xs) = map space_id xs"
  by (induction xs) auto

lemma filter_update_others:
  "filter (\<lambda>r. space_id r \<noteq> i) (map (\<lambda>x. if space_id x = i then apply_update t u x else x) xs)
     = filter (\<lambda>r. space_id r \<noteq> i) xs"
  by (induction xs) auto

lemma updateSpace_result:
  assumes "updateSpace slugify e d caller identifier payload = (d', SpaceJson v st)"
    and "findFirst_id_or_slug d identifier = Some existing"
    and "primary_key d"
  shows "\<exists>u. prepareUpdate slugify d existing payload = Inr u \<and>
     findUnique_id d' (space_id existing) = Some (apply_update (now e) u existing) \<and>
     f_space v = apply_update (now e) u existing \<and>
     spaces d' = map (\<lambda>x. if space_id x = space_id existing then apply_update (now e) u x else x)
                   (spaces d) \<and>
     st = 200 \<and> submittedById existing = user_id caller"
proof -
  from updateSpace_success[OF assms(1,2)] obtain u r where
    s: "submittedById existing = user_id caller"
    "prepareUpdate slugify d existing payload = Inr u"
    "findUnique_id d (space_id existing) = Some r"
    "d' = d\<lparr>spaces := map (\<lambda>x. if space_id x = space_id existing
                                  then apply_update (now e) u x else x) (spaces d)\<rparr>"
    "v = formatSpace d' (apply_update (now e) u r)" "st = 200"
    by blast
  from findUnique_id_found[OF assms(3,2)] s(3) have r: "r = existing" by simp
  have "findUnique_id d' (space_id existing) = Some (apply_update (now e) u existing)"
    using s(3) r by (simp add: s(4) findUnique_id_def find_id_map)
  with s r show ?thesis by (simp add: formatSpace_def)
qed

lemma createSpace_success:
  assumes "createSpace slugify e d caller cp = (d', SpaceJson v st)"
  shows "v = formatSpace d' (create_data e (ensureUniqueSlug slugify d (c_name cp)) caller cp) \<and>
     spaces d' = spaces d @ [create_data e (ensureUniqueSlug slugify d (c_name cp)) caller cp] \<and>
     st = 201"
proof -
  let ?row = "create_data e (ensureUniqueSlug slugify d (c_name cp)) caller cp"
  from assms have v: "space_create e d ?row = Inr (d', f_space v)" "st = 201"
    "v = formatSpace d' (f_space v)"
    by (auto simp: createSpace_def type_not_found_def ids_not_found_def create_catch_def
        formatSpace_def Let_def split: if_splits option.splits sum.splits prod.splits)
  from v(1) have "d' = d\<lparr>spaces := spaces d @ [?row]\<rparr>" "f_space v = ?row"
    by (auto simp: space_create_def split: option.splits if_splits)
  with v show ?thesis by simp
qed

lemma example_lookup:
  "findFirst_id_or_slug example_db ''taman-bungkul'' = Some (example_space ''s1'' ''Taman Bungkul'' ''taman-bungkul'' ''u1'')"
  "findUnique_id example_db ''s1'' = Some (example_space ''s1'' ''Taman Bungkul'' ''taman-bungkul'' ''u1'')"
  by (simp_all add: findFirst_id_or_slug_def findUnique_id_def example_db_def example_space_def)

lemma example_primary_key: "primary_key example_db"
  by (simp add: primary_key_def example_db_def example_space_def)

lemma example_rename_slug:
  "ensureUniqueSlug slugify_ascii example_db ''taman bungkul'' = ''taman-bungkul-1''"
  by (simp add: ensureUniqueSlug_def slug_loop.simps findUnique_slug_def retry_slug_def
      slugify_ascii_def lower_char_def decimal.simps digit_def example_db_def example_space_def)

lemma example_rename_prepare:
  "\<exists>u. prepareUpdate slugify_ascii example_db
      (example_space ''s1'' ''Taman Bungkul'' ''taman-bungkul'' ''u1'') rename_payload = Inr u"
  by (simp add: prepareUpdate_def with_type_def with_categories_def with_features_def
      find_missing_def findMany_ids_def rename_payload_def no_changes_def example_db_def
      example_taxonomy_def)

lemma example_rename:
  "\<exists>d' v. updateSpace slugify_ascii example_env example_db (example_user ''u1'')
      ''taman-bungkul'' rename_payload = (d', SpaceJson v 200)"
proof -
  let ?s = "example_space ''s1'' ''Taman Bungkul'' ''taman-bungkul'' ''u1''"
  from example_rename_prepare obtain u where
    u: "prepareUpdate slugify_ascii example_db ?s rename_payload = Inr u" by blast
  have sl: "d_slug u = Defined ''taman-bungkul-1''"
    by (simp add: prepareUpdate_fields(5)[OF u] rename_payload_def no_changes_def
        example_space_def example_rename_slug)
  have de: "d_description u = Defined (Some [])"
    by (simp add: prepareUpdate_fields(6)[OF u] rename_payload_def no_changes_def)
  have rel: "d_type u = Undefined" "d_categories u = Defined []"
    "d_features u = Defined [''f2'', ''f1'']"
    by (simp_all add: prepareUpdate_fields(1,2,3)[OF u] rename_payload_def no_changes_def)
  have ch: "\<not> slug_taken_by_other example_db ''s1'' (Defined ''taman-bungkul-1'')"
    "targets_exist (spaceTypes example_db) Undefined"
    "targets_exist (spaceCategories example_db) (Defined [])"
    "targets_exist (spaceFeatures example_db) (Defined [''f2'', ''f1''])"
    by (simp_all add: slug_taken_by_other_def targets_exist_def all_exist_def example_db_def
        example_space_def example_taxonomy_def)
  have "\<exists>d' r. space_update example_env example_db ''s1'' u = Inr (d', r)"
    using ch by (simp add: space_update_def example_env_def de sl rel example_lookup(2))
  then obtain d' r where "space_update example_env example_db ''s1'' u = Inr (d', r)" by blast
  moreover have "space_id ?s = ''s1''" "submittedById ?s = user_id (example_user ''u1'')"
    by (simp_all add: example_space_def example_user_def)
  ultimately show ?thesis using u example_lookup(1) by (simp add: updateSpace_def)
qed

lemma example_create_succeeds:
  assumes "c_name cp = ''Kebun Bibit''" and "c_typeId cp = ''t1''"
    and "find_missing (spaceCategories example_db) (or_nil (c_categoryIds cp)) = None"
    and "find_missing (spaceFeatures example_db) (or_nil (c_featureIds cp)) = None"
  shows "\<exists>d' v. createSpace slugify_ascii example_env example_db (example_user ''u1'') cp
      = (d', SpaceJson v 201)"
proof -
  have sl: "ensureUniqueSlug slugify_ascii example_db ''Kebun Bibit'' = ''kebun-bibit''"
    by (simp add: ensureUniqueSlug_def slug_loop.simps findUnique_slug_def
        slugify_ascii_def lower_char_def example_db_def example_space_def)
  have t: "spaceTypes example_db ''t1'' \<noteq> None"
    by (simp add: example_db_def example_taxonomy_def)
  have f: "findUnique_slug example_db ''kebun-bibit'' = None"
    "findUnique_id example_db ''s3'' = None"
    by (simp_all add: findUnique_slug_def findUnique_id_def example_db_def example_space_def)
  have x: "all_exist (spaceCategories example_db) (or_nil (c_categoryIds cp))"
    "all_exist (spaceFeatures example_db) (or_nil (c_featureIds cp))"
    using find_missing_NoneD[OF assms(3)] find_missing_NoneD[OF assms(4)]
    by (simp_all add: all_exist_def list_all_iff del: not_None_eq)
  have "\<exists>d' r. space_create example_env example_db
      (create_data example_env ''kebun-bibit'' (example_user ''u1'') cp) = Inr (d', r)"
    using t f x assms(2)
    by (simp add: space_create_def create_data_def example_env_def del: not_None_eq)
  then obtain d' r where "space_create example_env example_db
      (create_data example_env ''kebun-bibit'' (example_user ''u1'') cp) = Inr (d', r)" by blast
  then show ?thesis using t sl assms
    by (simp add: createSpace_def del: not_None_eq)
qed

text \<open>When no lookup raises, the handlers are those of the section before.\<close>

lemma slug_loop_raising_quiet:
  "\<forall>k. raising (SlugCheck k) = None \<Longrightarrow>
   slug_loop_raising raising slugify d baseName slg c
     = Continue (slug_loop slugify d baseName slg c)"
proof (induction slugify d baseName slg c rule: slug_loop.induct)
  case (1 slugify d baseName slg c)
  show ?case
  proof (cases "findUnique_slug d slg = None")
    case True
    with 1(2) show ?thesis
      by (subst slug_loop_raising.simps) (simp add: slug_loop_first)
  next
    case False
    with 1(1)[OF False 1(2)] 1(2) show ?thesis
      by (subst slug_loop_raising.simps)
        (simp add: slug_loop_next[OF False] del: not_None_eq)
  qed
qed

lemma slug_loop_raising_no_faults:
  "slug_loop_raising Map.empty slugify d baseName slg c
     = Continue (slug_loop slugify d baseName slg c)"
  by (rule slug_loop_raising_quiet) simp

lemma ensureUniqueSlug_raising_no_faults:
  "ensureUniqueSlug_raising Map.empty slugify d baseName
     = Continue (ensureUniqueSlug slugify d baseName)"
  by (simp add: ensureUniqueSlug_raising_def ensureUniqueSlug_def slug_loop_raising_no_faults
      next_step_def)

lemma check_ids_no_faults:
  "check_ids Map.empty c kind table ids =
     (case find_missing table ids of
        Some missingIds \<Rightarrow> Return (ids_not_found kind missingIds)
      | None \<Rightarrow> Continue ())"
  by (simp add: check_ids_def find_missing_def await_def next_step_def Let_def)


lemma slug_step_no_faults:
  "slug_step Map.empty slugify d existing payload u
     = Continue (with_slug slugify d existing payload u)"
  by (simp add: slug_step_def with_slug_def ensureUniqueSlug_raising_no_faults next_step_def
      split: optional.split)

lemma type_step_no_faults:
  "type_step Map.empty d payload u =
     (case with_type d payload u of Inl early \<Rightarrow> Return early | Inr u' \<Rightarrow> Continue u')"
  by (simp add: type_step_def with_type_def await_def next_step_def
      split: optional.split)

lemma categories_step_no_faults:
  "categories_step Map.empty d payload u =
     (case with_categories d payload u of Inl early \<Rightarrow> Return early | Inr u' \<Rightarrow> Continue u')"
  by (simp add: categories_step_def with_categories_def check_ids_no_faults next_step_def
      split: optional.split option.split)

lemma features_step_no_faults:
  "features_step Map.empty d payload u =
     (case with_features d payload u of Inl early \<Rightarrow> Return early | Inr u' \<Rightarrow> Continue u')"
  by (simp add: features_step_def with_features_def check_ids_no_faults next_step_def
      split: optional.split option.split)

lemma updateSpace_route_no_faults:
  "updateSpace_route Map.empty slugify e d caller identifier payload
     = updateSpace slugify e d caller identifier payload"
proof (cases "findFirst_id_or_slug d identifier")
  case None
  then show ?thesis
    by (simp add: updateSpace_route_def update_steps_def updateSpace_def await_def
        next_step_def)
next
  case (Some existing)
  show ?thesis
  proof (cases "submittedById existing = user_id caller")
    case False
    with Some show ?thesis
      by (simp add: updateSpace_route_def update_steps_def updateSpace_def await_def
          next_step_def)
  next
    case True
    have "updateSpace_route Map.empty slugify e d caller identifier payload =
        (case prepareUpdate slugify d existing payload of
           Inl early \<Rightarrow> (d, early)
         | Inr u \<Rightarrow>
             (case space_update e d (space_id existing) u of
                Inl error \<Rightarrow> (d, update_catch error)
              | Inr (d', updatedSpace) \<Rightarrow> (d', SpaceJson (formatSpace d' updatedSpace) 200)))"
      using Some True
      by (simp add: updateSpace_route_def update_steps_def prepareUpdate_def
          slug_step_no_faults type_step_no_faults categories_step_no_faults
          features_step_no_faults await_def await_write_def next_step_def
          
          split: sum.split prod.split)
    with Some True show ?thesis by (simp add: updateSpace_def)
  qed
qed

lemma deleteSpace_route_no_faults:
  "deleteSpace_route Map.empty e d caller i = deleteSpace e d caller i"
  by (simp add: deleteSpace_route_def delete_steps_def deleteSpace_def await_def await_write_def
      next_step_def split: option.split sum.split)

text \<open>
  An error that a handler body raises was raised by a call of the persistence layer: by
  a lookup or by the write.
\<close>

lemma slug_loop_raising_source:
  "slug_loop_raising raising slugify d baseName slg c = Raise err \<Longrightarrow>
   \<exists>k. raising (SlugCheck k) = Some err"
proof (induction raising slugify d baseName slg c rule: slug_loop_raising.induct)
  case (1 raising slugify d baseName slg c)
  show ?case
  proof (cases "raising (SlugCheck c)")
    case (Some error)
    with 1(2) have "error = err" by (simp add: slug_loop_raising.simps[of raising slugify d baseName slg c])
    with Some show ?thesis by blast
  next
    case None
    show ?thesis
    proof (cases "findUnique_slug d slg = None")
      case True
      with None 1(2) show ?thesis
        by (simp add: slug_loop_raising.simps[of raising slugify d baseName slg c])
    next
      case False
      with None 1(2) have "slug_loop_raising raising slugify d baseName
          (retry_slug slugify baseName c) (c + 1) = Raise err"
        by (simp add: slug_loop_raising.simps[of raising slugify d baseName slg c]
            del: not_None_eq)
      from 1(1)[OF None False this] show ?thesis .
    qed
  qed
qed

lemma ensureUniqueSlug_raising_source:
  "ensureUniqueSlug_raising raising slugify d baseName = Raise err \<Longrightarrow>
   \<exists>k. raising (SlugCheck k) = Some err"
  by (auto simp: ensureUniqueSlug_raising_def next_step_def split: step.splits
      dest: slug_loop_raising_source)

lemma check_ids_source:
  "check_ids raising c kind table ids = Raise err \<Longrightarrow> raising c = Some err"
  by (auto simp: check_ids_def await_def next_step_def split: if_splits option.splits)

lemma slug_step_source:
  "slug_step raising slugify d existing payload u = Raise err \<Longrightarrow> \<exists>c. raising c = Some err"
  by (auto simp: slug_step_def next_step_def split: optional.splits if_splits step.splits
      dest: ensureUniqueSlug_raising_source)

lemma type_step_source:
  "type_step raising d payload u = Raise err \<Longrightarrow> \<exists>c. raising c = Some err"
  by (auto simp: type_step_def await_def next_step_def
      split: optional.splits if_splits option.splits)

lemma categories_step_source:
  "categories_step raising d payload u = Raise err \<Longrightarrow> \<exists>c. raising c = Some err"
  by (auto simp: categories_step_def next_step_def split: optional.splits step.splits
      dest: check_ids_source)

lemma features_step_source:
  "features_step raising d payload u = Raise err \<Longrightarrow> \<exists>c. raising c = Some err"
  by (auto simp: features_step_def next_step_def split: optional.splits step.splits
      dest: check_ids_source)

lemma await_write_source: "await_write w = Raise err \<Longrightarrow> w = Inl err"
  by (cases w) (simp_all add: await_write_def)

lemma next_step_Raise:
  "next_step s k = Raise err \<Longrightarrow> s = Raise err \<or> (\<exists>x. s = Continue x \<and> k x = Raise err)"
  by (cases s) (simp_all add: next_step_def)

lemma update_steps_source:
  assumes "update_steps raising slugify e d caller ident up = Raise err"
  shows "(\<exists>c. raising c = Some err) \<or> (\<exists>i u. space_update e d i u = Inl err)"
proof -
  from assms have "raising FindSpace = Some err \<or>
      (\<exists>existing u0 u1 u2 u3.
         (slug_step raising slugify d existing up (copy_fields up) = Raise err \<or>
          type_step raising d up u0 = Raise err \<or>
          categories_step raising d up u1 = Raise err \<or>
          features_step raising d up u2 = Raise err \<or>
          await_write (space_update e d (space_id existing) (with_description up u3)) = Raise err))"
    unfolding update_steps_def
    by (auto simp: await_def next_step_def split: option.splits if_splits step.splits prod.splits)
  then show ?thesis
    by (auto dest: slug_step_source type_step_source categories_step_source
        features_step_source await_write_source)
qed

lemma delete_steps_source:
  assumes "delete_steps raising e d authenticatedUser i = Raise err"
  shows "raising FindSpace = Some err \<or> space_delete e d i = Inl err"
  using assms unfolding delete_steps_def
  by (auto simp: await_def next_step_def await_write_def
      split: option.splits if_splits step.splits sum.splits)

lemma create_steps_source:
  assumes "create_steps raising slugify e d caller cp = Raise err"
  shows "(\<exists>c. raising c = Some err) \<or> (\<exists>row. space_create e d row = Inl err)"
proof -
  from assms have "raising FindType = Some err \<or>
      check_ids raising FindCategories ''Category'' (spaceCategories d) (or_nil (c_categoryIds cp))
        = Raise err \<or>
      check_ids raising FindFeatures ''Feature'' (spaceFeatures d) (or_nil (c_featureIds cp))
        = Raise err \<or>
      ensureUniqueSlug_raising raising slugify d (c_name cp) = Raise err \<or>
      (\<exists>row. await_write (space_create e d row) = Raise err)"
    unfolding create_steps_def
    by (auto simp: await_def next_step_def split: option.splits if_splits step.splits prod.splits)
  then show ?thesis
    by (auto dest: check_ids_source ensureUniqueSlug_raising_source await_write_source)
qed






section \<open>Properties of the slug generator\<close>

text \<open>
  C3. For every display name and every store, \<open>ensureUniqueSlug\<close> returns a slug that
  no existing Space uses. Its first candidate is the slugification of the name with the
  options \<open>lower\<close> and \<open>strict\<close>, and it is returned when it is unused. Otherwise the
  result is the slugification of the original name with the default options, a hyphen
  and a counter \<open>k \<ge> 1\<close>, where every smaller counter from 1 on gave a slug in use: the
  counter starts at 1 and is incremented until the candidate is unused.
\<close>

theorem ensureUniqueSlug_unused:
  "findUnique_slug d (ensureUniqueSlug slugify d baseName) = None \<and>
   (findUnique_slug d (slugify baseName (Some \<lparr>lower = True, strict = True\<rparr>)) = None \<longrightarrow>
      ensureUniqueSlug slugify d baseName
        = slugify baseName (Some \<lparr>lower = True, strict = True\<rparr>)) \<and>
   (findUnique_slug d (slugify baseName (Some \<lparr>lower = True, strict = True\<rparr>)) \<noteq> None \<longrightarrow>
      (\<exists>k\<ge>1. ensureUniqueSlug slugify d baseName = slugify baseName None @ ''-'' @ decimal k \<and>
         (\<forall>j. 1 \<le> j \<and> j < k \<longrightarrow>
            findUnique_slug d (slugify baseName None @ ''-'' @ decimal j) \<noteq> None)))"
proof (intro conjI impI)
  show "findUnique_slug d (ensureUniqueSlug slugify d baseName) = None"
    unfolding ensureUniqueSlug_def by (rule slug_loop_unused)
next
  assume "findUnique_slug d (slugify baseName (Some \<lparr>lower = True, strict = True\<rparr>)) = None"
  then show "ensureUniqueSlug slugify d baseName
      = slugify baseName (Some \<lparr>lower = True, strict = True\<rparr>)"
    by (simp add: ensureUniqueSlug_def slug_loop_first)
next
  assume "findUnique_slug d (slugify baseName (Some \<lparr>lower = True, strict = True\<rparr>)) \<noteq> None"
  from slug_loop_retry[OF this, of 1 slugify baseName]
  show "\<exists>k\<ge>1. ensureUniqueSlug slugify d baseName = slugify baseName None @ ''-'' @ decimal k \<and>
         (\<forall>j. 1 \<le> j \<and> j < k \<longrightarrow>
            findUnique_slug d (slugify baseName None @ ''-'' @ decimal j) \<noteq> None)"
    unfolding ensureUniqueSlug_def retry_slug_def by force
qed

theorem ensureUniqueSlug_unused_witness:
  "findUnique_slug example_db
      (slugify_ascii ''Kebun Bibit'' (Some \<lparr>lower = True, strict = True\<rparr>)) = None \<and>
   ensureUniqueSlug slugify_ascii example_db ''Kebun Bibit'' = ''kebun-bibit'' \<and>
   findUnique_slug example_db
      (slugify_ascii ''Taman Bungkul'' (Some \<lparr>lower = True, strict = True\<rparr>)) \<noteq> None \<and>
   findUnique_slug example_db (slugify_ascii ''Taman Bungkul'' None @ ''-'' @ decimal 1) \<noteq> None \<and>
   ensureUniqueSlug slugify_ascii example_db ''Taman Bungkul'' = ''Taman-Bungkul-2'' \<and>
   findUnique_slug example_db ''Taman-Bungkul-2'' = None"
proof -
  have free: "findUnique_slug example_db
      (slugify_ascii ''Kebun Bibit'' (Some \<lparr>lower = True, strict = True\<rparr>)) = None"
    by (simp add: findUnique_slug_def example_db_def example_space_def slugify_ascii_def
        lower_char_def)
  with ensureUniqueSlug_unused[of example_db slugify_ascii "''Kebun Bibit''"]
  have first: "ensureUniqueSlug slugify_ascii example_db ''Kebun Bibit'' = ''kebun-bibit''"
    by (simp add: slugify_ascii_def lower_char_def)
  have used: "findUnique_slug example_db
      (slugify_ascii ''Taman Bungkul'' (Some \<lparr>lower = True, strict = True\<rparr>)) \<noteq> None"
    by (simp add: findUnique_slug_def example_db_def example_space_def slugify_ascii_def
        lower_char_def)
  have used1: "findUnique_slug example_db
      (slugify_ascii ''Taman Bungkul'' None @ ''-'' @ decimal 1) \<noteq> None"
    by (simp add: findUnique_slug_def example_db_def example_space_def slugify_ascii_def
        decimal.simps digit_def)
  have free2: "findUnique_slug example_db
      (slugify_ascii ''Taman Bungkul'' None @ ''-'' @ decimal 2) = None"
    by (simp add: findUnique_slug_def example_db_def example_space_def slugify_ascii_def
        decimal.simps digit_def)
  from ensureUniqueSlug_unused[of example_db slugify_ascii "''Taman Bungkul''"] used
  obtain k where k: "1 \<le> k"
    "ensureUniqueSlug slugify_ascii example_db ''Taman Bungkul''
       = slugify_ascii ''Taman Bungkul'' None @ ''-'' @ decimal k"
    "\<forall>j. 1 \<le> j \<and> j < k \<longrightarrow>
       findUnique_slug example_db (slugify_ascii ''Taman Bungkul'' None @ ''-'' @ decimal j) \<noteq> None"
    and unused: "findUnique_slug example_db
       (ensureUniqueSlug slugify_ascii example_db ''Taman Bungkul'') = None"
    by blast
  have "k \<noteq> 1" using used1 unused k(2) by auto
  moreover have "\<not> 2 < k" using k(3)[rule_format, of 2] free2 by auto
  ultimately have "k = 2" using k(1) by simp
  with k(2) have "ensureUniqueSlug slugify_ascii example_db ''Taman Bungkul'' = ''Taman-Bungkul-2''"
    by (simp add: slugify_ascii_def decimal.simps digit_def)
  with free first used used1 unused show ?thesis by simp
qed

text \<open>
  C8. For every display name and every store, the retry loop of \<open>ensureUniqueSlug\<close>
  terminates: \<open>slug_loop\<close> is a total function, and a budget of as many iterations
  as there are existing Spaces, plus two, is enough for the loop to return its result.
  The counter in the final state is the number of iterations made.
\<close>

theorem ensureUniqueSlug_terminates:
  "ensureUniqueSlug_within (length (spaces d) + 2) slugify d baseName
     = Some (ensureUniqueSlug slugify d baseName) \<and>
   snd (slug_loop slugify d baseName
          (slugify baseName (Some \<lparr>lower = True, strict = True\<rparr>)) 1) \<le> length (spaces d) + 2"
proof -
  let ?first = "slugify baseName (Some \<lparr>lower = True, strict = True\<rparr>)"
  have enough: "slug_loop_within (length (spaces d) + 2) slugify d baseName ?first 1
      = Some (slug_loop slugify d baseName ?first 1)"
    by (rule slug_loop_within_enough) (rule attempts_left_le)
  then have "snd (slug_loop slugify d baseName ?first 1) - 1 < length (spaces d) + 2"
    by (simp add: slug_loop_within_iterations split: if_splits)
  with enough show ?thesis
    by (simp add: ensureUniqueSlug_within_def ensureUniqueSlug_def)
qed

section \<open>Properties of the handlers\<close>




text \<open>
  C2. After a successful update of a Space, its category association is exactly the list
  \<open>categoryIds\<close> of the payload when that key is present (so an empty list clears it),
  and is unchanged when the key is absent; the same holds for \<open>featureIds\<close> and the
  feature association.
\<close>

theorem relations_replaced_or_kept:
  assumes "updateSpace slugify e d caller identifier payload = (d', SpaceJson v st)"
    and "findFirst_id_or_slug d identifier = Some existing"
    and "primary_key d"
  shows "\<exists>updated. findUnique_id d' (space_id existing) = Some updated \<and> f_space v = updated \<and>
     categories updated =
       (case u_categoryIds payload of Defined ids \<Rightarrow> ids | Undefined \<Rightarrow> categories existing) \<and>
     features updated =
       (case u_featureIds payload of Defined ids \<Rightarrow> ids | Undefined \<Rightarrow> features existing)"
proof -
  from updateSpace_result[OF assms] obtain u where
    u: "prepareUpdate slugify d existing payload = Inr u"
    "findUnique_id d' (space_id existing) = Some (apply_update (now e) u existing)"
    "f_space v = apply_update (now e) u existing"
    by blast
  have "categories (apply_update (now e) u existing) =
      (case u_categoryIds payload of Defined ids \<Rightarrow> ids | Undefined \<Rightarrow> categories existing)"
    by (simp add: apply_update_def assign_def prepareUpdate_fields(1)[OF u(1)])
  moreover have "features (apply_update (now e) u existing) =
      (case u_featureIds payload of Defined ids \<Rightarrow> ids | Undefined \<Rightarrow> features existing)"
    by (simp add: apply_update_def assign_def prepareUpdate_fields(2)[OF u(1)])
  ultimately show ?thesis using u(2,3) by simp
qed

theorem relations_replaced_or_kept_witness:
  "primary_key example_db \<and>
   (\<exists>d' v. updateSpace slugify_ascii example_env example_db (example_user ''u1'')
        ''taman-bungkul'' rename_payload = (d', SpaceJson v 200) \<and>
      (\<exists>updated. findUnique_id d' ''s1'' = Some updated \<and> f_space v = updated \<and>
         categories updated = [] \<and> features updated = [''f2'', ''f1'']))"
proof -
  from example_rename obtain d' v where
    s: "updateSpace slugify_ascii example_env example_db (example_user ''u1'')
      ''taman-bungkul'' rename_payload = (d', SpaceJson v 200)" by blast
  from relations_replaced_or_kept[OF s example_lookup(1) example_primary_key]
  have "\<exists>updated. findUnique_id d' ''s1'' = Some updated \<and> f_space v = updated \<and>
         categories updated = [] \<and> features updated = [''f2'', ''f1'']"
    by (simp add: example_space_def rename_payload_def no_changes_def)
  with s example_primary_key show ?thesis by blast
qed

text \<open>
  C4. An update or a delete by a caller who is not the Author of the target Space is
  answered with 403 and leaves the store unchanged, whatever the payload is: the check
  comes before any other validation and before any write. It comes after the existence
  check: when no Space matches, the answer is 404 whoever the caller is.
\<close>

theorem non_author_forbidden:
  "(findFirst_id_or_slug d identifier = None \<longrightarrow>
      updateSpace slugify e d caller identifier payload
        = (d, ErrorJson ''Space not found.'' 404 404)) \<and>
   (findFirst_id_or_slug d identifier = Some existing \<and>
    submittedById existing \<noteq> user_id caller \<longrightarrow>
      updateSpace slugify e d caller identifier payload
        = (d, ErrorJson ''Forbidden: You do not have permission to update this space.'' 403 403)) \<and>
   (findUnique_id d i = None \<longrightarrow>
      deleteSpace e d (Some caller) i = (d, ErrorJson ''Space not found.'' 404 404)) \<and>
   (findUnique_id d i = Some target \<and> submittedById target \<noteq> user_id caller \<longrightarrow>
      deleteSpace e d (Some caller) i
        = (d, ErrorJson ''Forbidden: You do not have permission to delete this space.'' 403 403))"
  by (simp add: updateSpace_def deleteSpace_def)

theorem non_author_forbidden_witness:
  "updateSpace slugify_ascii example_env example_db (example_user ''u2'') ''taman-bungkul''
       (no_changes\<lparr>u_categoryIds := Defined [''missing'']\<rparr>)
     = (example_db, ErrorJson ''Forbidden: You do not have permission to update this space.'' 403 403) \<and>
   updateSpace slugify_ascii example_env example_db (example_user ''u2'') ''s9'' no_changes
     = (example_db, ErrorJson ''Space not found.'' 404 404) \<and>
   deleteSpace example_env example_db (Some (example_user ''u2'')) ''s1''
     = (example_db, ErrorJson ''Forbidden: You do not have permission to delete this space.'' 403 403) \<and>
   deleteSpace example_env example_db (Some (example_user ''u2'')) ''s9''
     = (example_db, ErrorJson ''Space not found.'' 404 404)"
proof -
  have a: "submittedById (example_space ''s1'' ''Taman Bungkul'' ''taman-bungkul'' ''u1'')
      \<noteq> user_id (example_user ''u2'')"
    by (simp add: example_space_def example_user_def)
  have n: "findFirst_id_or_slug example_db ''s9'' = None" "findUnique_id example_db ''s9'' = None"
    by (simp_all add: findFirst_id_or_slug_def findUnique_id_def example_db_def example_space_def)
  from non_author_forbidden[of example_db "''taman-bungkul''" slugify_ascii example_env
      "example_user ''u2''" "no_changes\<lparr>u_categoryIds := Defined [''missing'']\<rparr>"
      "example_space ''s1'' ''Taman Bungkul'' ''taman-bungkul'' ''u1''" "''s1''"
      "example_space ''s1'' ''Taman Bungkul'' ''taman-bungkul'' ''u1''"]
    non_author_forbidden[of example_db "''s9''" slugify_ascii example_env
      "example_user ''u2''" no_changes
      "example_space ''s1'' ''Taman Bungkul'' ''taman-bungkul'' ''u1''" "''s9''"
      "example_space ''s1'' ''Taman Bungkul'' ''taman-bungkul'' ''u1''"]
    a n example_lookup
  show ?thesis by simp
qed




text \<open>
  C6. After a successful update, the slug of the Space is the result of
  \<open>ensureUniqueSlug\<close> on the new name, a slug that no Space used, when the payload has a
  name that differs from the stored one; otherwise the slug is unchanged. The write goes
  to the row with the id of the Space that was found: that row keeps its id, and the rows
  with another id are untouched.
\<close>

theorem slug_regenerated_on_rename:
  assumes "updateSpace slugify e d caller identifier payload = (d', SpaceJson v st)"
    and "findFirst_id_or_slug d identifier = Some existing"
    and "primary_key d"
  shows "\<exists>u updated. prepareUpdate slugify d existing payload = Inr u \<and>
     d_slug u =
       (case u_name payload of
          Undefined \<Rightarrow> Undefined
        | Defined n \<Rightarrow> if n \<noteq> name existing then Defined (ensureUniqueSlug slugify d n)
                       else Undefined) \<and>
     findUnique_id d' (space_id existing) = Some updated \<and>
     slug updated =
       (case u_name payload of
          Undefined \<Rightarrow> slug existing
        | Defined n \<Rightarrow> if n \<noteq> name existing then ensureUniqueSlug slugify d n
                       else slug existing) \<and>
     (\<forall>n. u_name payload = Defined n \<and> n \<noteq> name existing \<longrightarrow>
        findUnique_slug d (slug updated) = None) \<and>
     space_id updated = space_id existing \<and>
     map space_id (spaces d') = map space_id (spaces d) \<and>
     filter (\<lambda>r. space_id r \<noteq> space_id existing) (spaces d')
       = filter (\<lambda>r. space_id r \<noteq> space_id existing) (spaces d)"
proof -
  from updateSpace_result[OF assms] obtain u where
    u: "prepareUpdate slugify d existing payload = Inr u"
    "findUnique_id d' (space_id existing) = Some (apply_update (now e) u existing)"
    "spaces d' = map (\<lambda>x. if space_id x = space_id existing then apply_update (now e) u x else x)
                   (spaces d)"
    by blast
  have sl: "slug (apply_update (now e) u existing) =
      (case u_name payload of
          Undefined \<Rightarrow> slug existing
        | Defined n \<Rightarrow> if n \<noteq> name existing then ensureUniqueSlug slugify d n
                       else slug existing)"
    by (simp add: apply_update_def assign_def prepareUpdate_fields(5)[OF u(1)]
        split: optional.split)
  have un: "\<forall>n. u_name payload = Defined n \<and> n \<noteq> name existing \<longrightarrow>
        findUnique_slug d (slug (apply_update (now e) u existing)) = None"
  proof (intro allI impI)
    fix n assume "u_name payload = Defined n \<and> n \<noteq> name existing"
    then have "slug (apply_update (now e) u existing) = ensureUniqueSlug slugify d n"
      by (simp add: sl)
    then show "findUnique_slug d (slug (apply_update (now e) u existing)) = None"
      by (simp add: ensureUniqueSlug_free)
  qed
  have ids: "map space_id (spaces d') = map space_id (spaces d)"
    unfolding u(3) by (rule map_update_ids)
  have others: "filter (\<lambda>r. space_id r \<noteq> space_id existing) (spaces d')
       = filter (\<lambda>r. space_id r \<noteq> space_id existing) (spaces d)"
    unfolding u(3) by (rule filter_update_others)
  show ?thesis
  proof (intro exI conjI)
    show "prepareUpdate slugify d existing payload = Inr u" by (rule u(1))
    show "findUnique_id d' (space_id existing) = Some (apply_update (now e) u existing)"
      by (rule u(2))
    show "space_id (apply_update (now e) u existing) = space_id existing" by simp
  qed (rule sl un ids others prepareUpdate_fields(5)[OF u(1)])+
qed

theorem slug_regenerated_on_rename_witness:
  "primary_key example_db \<and>
   (\<exists>d' v. updateSpace slugify_ascii example_env example_db (example_user ''u1'')
        ''taman-bungkul'' rename_payload = (d', SpaceJson v 200) \<and>
      (\<exists>updated. findUnique_id d' ''s1'' = Some updated \<and>
         slug updated = ensureUniqueSlug slugify_ascii example_db ''taman bungkul'' \<and>
         findUnique_slug example_db (slug updated) = None \<and>
         map space_id (spaces d') = [''s1'', ''s2'']))"
proof -
  from example_rename obtain d' v where
    s: "updateSpace slugify_ascii example_env example_db (example_user ''u1'')
      ''taman-bungkul'' rename_payload = (d', SpaceJson v 200)" by blast
  have ids: "map space_id (spaces example_db) = [''s1'', ''s2'']"
    by (simp add: example_db_def example_space_def)
  from slug_regenerated_on_rename[OF s example_lookup(1) example_primary_key] ids
  have "\<exists>updated. findUnique_id d' ''s1'' = Some updated \<and>
         slug updated = ensureUniqueSlug slugify_ascii example_db ''taman bungkul'' \<and>
         findUnique_slug example_db (slug updated) = None \<and>
         map space_id (spaces d') = [''s1'', ''s2'']"
    by (auto simp: example_space_def rename_payload_def no_changes_def)
  with s example_primary_key show ?thesis by auto
qed

text \<open>
  C7. A successful create stores the empty string as description when the payload has
  none or \<open>null\<close>, and the given string otherwise; every other value of the payload is
  stored as it is given (an absent list as the empty list, an absent nullable value as
  \<open>null\<close>), the JSON documents included. The update data never carries a \<open>null\<close>
  description: a \<open>null\<close> in the payload becomes the empty string, every other scalar key
  is copied as it is given, and a successful update stores the empty string for a
  \<open>null\<close> description, the given string for a string, and keeps the stored description
  when the key is absent.
\<close>

theorem description_never_null:
  "(createSpace slugify e d caller cp = (d', SpaceJson v st) \<longrightarrow>
      f_space v \<in> set (spaces d') \<and>
      description (f_space v) =
        (case c_description cp of
           Undefined \<Rightarrow> [] | Defined None \<Rightarrow> [] | Defined (Some s) \<Rightarrow> s) \<and>
      f_space v =
        \<lparr>space_id = cuid e,
         name = c_name cp,
         slug = ensureUniqueSlug slugify d (c_name cp),
         alternateNames = (case c_alternateNames cp of Undefined \<Rightarrow> [] | Defined xs \<Rightarrow> xs),
         description = (case c_description cp of
                          Undefined \<Rightarrow> [] | Defined None \<Rightarrow> [] | Defined (Some s) \<Rightarrow> s),
         activities = (case c_activities cp of Undefined \<Rightarrow> [] | Defined xs \<Rightarrow> xs),
         historicalContext =
           (case c_historicalContext cp of Undefined \<Rightarrow> None | Defined x \<Rightarrow> x),
         architecturalStyle =
           (case c_architecturalStyle cp of Undefined \<Rightarrow> None | Defined x \<Rightarrow> x),
         operatingHours = (case c_operatingHours cp of Undefined \<Rightarrow> None | Defined x \<Rightarrow> x),
         entranceFee = (case c_entranceFee cp of Undefined \<Rightarrow> None | Defined x \<Rightarrow> x),
         contactInfo = (case c_contactInfo cp of Undefined \<Rightarrow> None | Defined x \<Rightarrow> x),
         accessibility = (case c_accessibility cp of Undefined \<Rightarrow> None | Defined x \<Rightarrow> x),
         typeId = c_typeId cp,
         categories = (case c_categoryIds cp of Undefined \<Rightarrow> [] | Defined ids \<Rightarrow> ids),
         features = (case c_featureIds cp of Undefined \<Rightarrow> [] | Defined ids \<Rightarrow> ids),
         submittedById = user_id caller,
         createdAt = now e,
         updatedAt = now e\<rparr>) \<and>
   (prepareUpdate slugify d existing up = Inr u \<longrightarrow>
      d_description u \<noteq> Defined None \<and>
      (u_description up = Defined None \<longrightarrow> d_description u = Defined (Some [])) \<and>
      (\<forall>s. u_description up = Defined (Some s) \<longrightarrow> d_description u = Defined (Some s)) \<and>
      (u_description up = Undefined \<longrightarrow> d_description u = Undefined) \<and>
      d_name u = u_name up \<and>
      d_alternateNames u = u_alternateNames up \<and>
      d_activities u = u_activities up \<and>
      d_historicalContext u = u_historicalContext up \<and>
      d_architecturalStyle u = u_architecturalStyle up \<and>
      d_operatingHours u = u_operatingHours up \<and>
      d_entranceFee u = u_entranceFee up \<and>
      d_contactInfo u = u_contactInfo up \<and>
      d_accessibility u = u_accessibility up) \<and>
   (updateSpace slugify e d caller identifier up = (d'', SpaceJson v' st') \<and>
    findFirst_id_or_slug d identifier = Some existing \<and> primary_key d \<longrightarrow>
      (\<exists>updated. findUnique_id d'' (space_id existing) = Some updated \<and> f_space v' = updated \<and>
         description updated =
           (case u_description up of
              Undefined \<Rightarrow> description existing
            | Defined None \<Rightarrow> []
            | Defined (Some s) \<Rightarrow> s)))"
proof -
  have create: "f_space v \<in> set (spaces d') \<and>
      description (f_space v) =
        (case c_description cp of
           Undefined \<Rightarrow> [] | Defined None \<Rightarrow> [] | Defined (Some s) \<Rightarrow> s) \<and>
      f_space v =
        \<lparr>space_id = cuid e,
         name = c_name cp,
         slug = ensureUniqueSlug slugify d (c_name cp),
         alternateNames = (case c_alternateNames cp of Undefined \<Rightarrow> [] | Defined xs \<Rightarrow> xs),
         description = (case c_description cp of
                          Undefined \<Rightarrow> [] | Defined None \<Rightarrow> [] | Defined (Some s) \<Rightarrow> s),
         activities = (case c_activities cp of Undefined \<Rightarrow> [] | Defined xs \<Rightarrow> xs),
         historicalContext =
           (case c_historicalContext cp of Undefined \<Rightarrow> None | Defined x \<Rightarrow> x),
         architecturalStyle =
           (case c_architecturalStyle cp of Undefined \<Rightarrow> None | Defined x \<Rightarrow> x),
         operatingHours = (case c_operatingHours cp of Undefined \<Rightarrow> None | Defined x \<Rightarrow> x),
         entranceFee = (case c_entranceFee cp of Undefined \<Rightarrow> None | Defined x \<Rightarrow> x),
         contactInfo = (case c_contactInfo cp of Undefined \<Rightarrow> None | Defined x \<Rightarrow> x),
         accessibility = (case c_accessibility cp of Undefined \<Rightarrow> None | Defined x \<Rightarrow> x),
         typeId = c_typeId cp,
         categories = (case c_categoryIds cp of Undefined \<Rightarrow> [] | Defined ids \<Rightarrow> ids),
         features = (case c_featureIds cp of Undefined \<Rightarrow> [] | Defined ids \<Rightarrow> ids),
         submittedById = user_id caller,
         createdAt = now e,
         updatedAt = now e\<rparr>"
    if c: "createSpace slugify e d caller cp = (d', SpaceJson v st)"
  proof -
    have n: "or_empty (c_description cp) =
        (case c_description cp of
           Undefined \<Rightarrow> [] | Defined None \<Rightarrow> [] | Defined (Some s) \<Rightarrow> s)"
      by (simp add: or_empty_def split: optional.split option.split)
    have l: "\<And>x. or_nil x = (case x of Undefined \<Rightarrow> [] | Defined xs \<Rightarrow> xs)"
      by (simp add: or_nil_def)
    have o: "\<And>x. or_null x = (case x of Undefined \<Rightarrow> None | Defined y \<Rightarrow> y)"
      by (simp add: or_null_def)
    from createSpace_success[OF c]
    have "f_space v = create_data e (ensureUniqueSlug slugify d (c_name cp)) caller cp"
      and "f_space v \<in> set (spaces d')"
      by (simp_all add: formatSpace_def)
    then show ?thesis by (simp add: create_data_def n l o)
  qed
  have data: "d_description u \<noteq> Defined None \<and>
      (u_description up = Defined None \<longrightarrow> d_description u = Defined (Some [])) \<and>
      (\<forall>s. u_description up = Defined (Some s) \<longrightarrow> d_description u = Defined (Some s)) \<and>
      (u_description up = Undefined \<longrightarrow> d_description u = Undefined) \<and>
      d_name u = u_name up \<and>
      d_alternateNames u = u_alternateNames up \<and>
      d_activities u = u_activities up \<and>
      d_historicalContext u = u_historicalContext up \<and>
      d_architecturalStyle u = u_architecturalStyle up \<and>
      d_operatingHours u = u_operatingHours up \<and>
      d_entranceFee u = u_entranceFee up \<and>
      d_contactInfo u = u_contactInfo up \<and>
      d_accessibility u = u_accessibility up"
    if p: "prepareUpdate slugify d existing up = Inr u"
  proof -
    have "d_description u \<noteq> Defined None \<and>
      (u_description up = Defined None \<longrightarrow> d_description u = Defined (Some [])) \<and>
      (\<forall>s. u_description up = Defined (Some s) \<longrightarrow> d_description u = Defined (Some s)) \<and>
      (u_description up = Undefined \<longrightarrow> d_description u = Undefined)"
      by (simp add: prepareUpdate_fields(6)[OF p] split: optional.split option.split)
    moreover have "d_name u = u_name up \<and>
      d_alternateNames u = u_alternateNames up \<and>
      d_activities u = u_activities up \<and>
      d_historicalContext u = u_historicalContext up \<and>
      d_architecturalStyle u = u_architecturalStyle up \<and>
      d_operatingHours u = u_operatingHours up \<and>
      d_entranceFee u = u_entranceFee up \<and>
      d_contactInfo u = u_contactInfo up \<and>
      d_accessibility u = u_accessibility up"
      unfolding prepareUpdate_Inr[OF p]
      by (simp add: with_description_def with_slug_def copy_fields_def
          split: optional.split option.split)
    ultimately show ?thesis by simp
  qed
  have update: "\<exists>updated. findUnique_id d'' (space_id existing) = Some updated \<and>
         f_space v' = updated \<and>
         description updated =
           (case u_description up of
              Undefined \<Rightarrow> description existing
            | Defined None \<Rightarrow> []
            | Defined (Some s) \<Rightarrow> s)"
    if s: "updateSpace slugify e d caller identifier up = (d'', SpaceJson v' st')"
      and f: "findFirst_id_or_slug d identifier = Some existing" and k: "primary_key d"
  proof -
    from updateSpace_result[OF s f k] obtain w where
      w: "prepareUpdate slugify d existing up = Inr w"
      "findUnique_id d'' (space_id existing) = Some (apply_update (now e) w existing)"
      "f_space v' = apply_update (now e) w existing"
      by blast
    have "description (apply_update (now e) w existing) =
        (case u_description up of
                Undefined \<Rightarrow> description existing
              | Defined None \<Rightarrow> []
              | Defined (Some s) \<Rightarrow> s)"
      by (simp add: apply_update_def prepareUpdate_fields(6)[OF w(1)]
          split: optional.split option.split)
    with w(2,3) show ?thesis by simp
  qed
  from create data update show ?thesis by blast
qed

theorem description_never_null_witness:
  "primary_key example_db \<and>
   (\<exists>d' v. createSpace slugify_ascii example_env example_db (example_user ''u1'')
        (example_create ''Kebun Bibit'') = (d', SpaceJson v 201) \<and>
      f_space v \<in> set (spaces d') \<and> description (f_space v) = [] \<and>
      historicalContext (f_space v) = None \<and> operatingHours (f_space v) = None) \<and>
   (\<forall>hours. \<exists>d' v. createSpace slugify_ascii example_env example_db (example_user ''u1'')
        (full_create hours) = (d', SpaceJson v 201) \<and>
      f_space v \<in> set (spaces d') \<and>
      name (f_space v) = ''Kebun Bibit'' \<and> slug (f_space v) = ''kebun-bibit'' \<and>
      description (f_space v) = ''A nursery garden.'' \<and>
      alternateNames (f_space v) = [''Bibit Park''] \<and>
      activities (f_space v) = [''walking''] \<and>
      historicalContext (f_space v) = Some ''Opened in 1950.'' \<and>
      architecturalStyle (f_space v) = None \<and>
      operatingHours (f_space v) = Some hours \<and>
      entranceFee (f_space v) = None \<and> contactInfo (f_space v) = None \<and>
      typeId (f_space v) = ''t1'' \<and>
      categories (f_space v) = [''c2'', ''c1''] \<and> features (f_space v) = [''f2''] \<and>
      submittedById (f_space v) = ''u1'') \<and>
   (\<exists>u. prepareUpdate slugify_ascii example_db
        (example_space ''s1'' ''Taman Bungkul'' ''taman-bungkul'' ''u1'') rename_payload = Inr u \<and>
      d_description u = Defined (Some []) \<and> d_name u = Defined ''taman bungkul'' \<and>
      d_historicalContext u = Undefined) \<and>
   (\<exists>d' v. updateSpace slugify_ascii example_env example_db (example_user ''u1'')
        ''taman-bungkul'' rename_payload = (d', SpaceJson v 200) \<and>
      (\<exists>updated. findUnique_id d' ''s1'' = Some updated \<and> description updated = []))"
proof -
  let ?s = "example_space ''s1'' ''Taman Bungkul'' ''taman-bungkul'' ''u1''"
  have sl: "ensureUniqueSlug slugify_ascii example_db ''Kebun Bibit'' = ''kebun-bibit''"
    by (simp add: ensureUniqueSlug_def slug_loop.simps findUnique_slug_def
        slugify_ascii_def lower_char_def example_db_def example_space_def)
  have "\<exists>d' v. createSpace slugify_ascii example_env example_db (example_user ''u1'')
      (example_create ''Kebun Bibit'') = (d', SpaceJson v 201)"
    by (rule example_create_succeeds)
      (simp_all add: example_create_def or_nil_def find_missing_def)
  then obtain d1 v1 where
    c: "createSpace slugify_ascii example_env example_db (example_user ''u1'')
      (example_create ''Kebun Bibit'') = (d1, SpaceJson v1 201)" by blast
  from example_rename_prepare obtain u where
    p: "prepareUpdate slugify_ascii example_db ?s rename_payload = Inr u" by blast
  from example_rename obtain d2 v2 where
    s: "updateSpace slugify_ascii example_env example_db (example_user ''u1'')
      ''taman-bungkul'' rename_payload = (d2, SpaceJson v2 200)" by blast
  note inst = description_never_null[of slugify_ascii example_env example_db "example_user ''u1''"
      "example_create ''Kebun Bibit''" d1 v1 201 ?s rename_payload u "''taman-bungkul''" d2 v2 200]
  from inst c have m1: "f_space v1 \<in> set (spaces d1)"
    and r1: "f_space v1 =
        \<lparr>space_id = cuid example_env,
         name = c_name (example_create ''Kebun Bibit''),
         slug = ensureUniqueSlug slugify_ascii example_db (c_name (example_create ''Kebun Bibit'')),
         alternateNames = (case c_alternateNames (example_create ''Kebun Bibit'') of
                             Undefined \<Rightarrow> [] | Defined xs \<Rightarrow> xs),
         description = (case c_description (example_create ''Kebun Bibit'') of
                          Undefined \<Rightarrow> [] | Defined None \<Rightarrow> [] | Defined (Some s) \<Rightarrow> s),
         activities = (case c_activities (example_create ''Kebun Bibit'') of
                         Undefined \<Rightarrow> [] | Defined xs \<Rightarrow> xs),
         historicalContext = (case c_historicalContext (example_create ''Kebun Bibit'') of
                                Undefined \<Rightarrow> None | Defined x \<Rightarrow> x),
         architecturalStyle = (case c_architecturalStyle (example_create ''Kebun Bibit'') of
                                 Undefined \<Rightarrow> None | Defined x \<Rightarrow> x),
         operatingHours = (case c_operatingHours (example_create ''Kebun Bibit'') of
                             Undefined \<Rightarrow> None | Defined x \<Rightarrow> x),
         entranceFee = (case c_entranceFee (example_create ''Kebun Bibit'') of
                          Undefined \<Rightarrow> None | Defined x \<Rightarrow> x),
         contactInfo = (case c_contactInfo (example_create ''Kebun Bibit'') of
                          Undefined \<Rightarrow> None | Defined x \<Rightarrow> x),
         accessibility = (case c_accessibility (example_create ''Kebun Bibit'') of
                            Undefined \<Rightarrow> None | Defined x \<Rightarrow> x),
         typeId = c_typeId (example_create ''Kebun Bibit''),
         categories = (case c_categoryIds (example_create ''Kebun Bibit'') of
                         Undefined \<Rightarrow> [] | Defined ids \<Rightarrow> ids),
         features = (case c_featureIds (example_create ''Kebun Bibit'') of
                       Undefined \<Rightarrow> [] | Defined ids \<Rightarrow> ids),
         submittedById = user_id (example_user ''u1''),
         createdAt = now example_env,
         updatedAt = now example_env\<rparr>"
    by blast+
  from r1 have "description (f_space v1) = [] \<and>
      historicalContext (f_space v1) = None \<and> operatingHours (f_space v1) = None"
    by (simp add: example_create_def)
  with m1 have 1: "f_space v1 \<in> set (spaces d1) \<and> description (f_space v1) = [] \<and>
      historicalContext (f_space v1) = None \<and> operatingHours (f_space v1) = None"
    by simp
  have 2: "d_description u = Defined (Some []) \<and> d_name u = Defined ''taman bungkul'' \<and>
      d_historicalContext u = Undefined"
    using inst p by (simp add: rename_payload_def no_changes_def)
  have 3: "\<exists>updated. findUnique_id d2 ''s1'' = Some updated \<and> description updated = []"
    using inst s example_lookup(1) example_primary_key
    by (auto simp: rename_payload_def no_changes_def example_space_def)
  have 4: "\<exists>d' v. createSpace slugify_ascii example_env example_db (example_user ''u1'')
        (full_create hours) = (d', SpaceJson v 201) \<and>
      f_space v \<in> set (spaces d') \<and>
      name (f_space v) = ''Kebun Bibit'' \<and> slug (f_space v) = ''kebun-bibit'' \<and>
      description (f_space v) = ''A nursery garden.'' \<and>
      alternateNames (f_space v) = [''Bibit Park''] \<and>
      activities (f_space v) = [''walking''] \<and>
      historicalContext (f_space v) = Some ''Opened in 1950.'' \<and>
      architecturalStyle (f_space v) = None \<and>
      operatingHours (f_space v) = Some hours \<and>
      entranceFee (f_space v) = None \<and> contactInfo (f_space v) = None \<and>
      typeId (f_space v) = ''t1'' \<and>
      categories (f_space v) = [''c2'', ''c1''] \<and> features (f_space v) = [''f2''] \<and>
      submittedById (f_space v) = ''u1''" for hours
  proof -
    have "\<exists>d' v. createSpace slugify_ascii example_env example_db (example_user ''u1'')
        (full_create hours) = (d', SpaceJson v 201)"
      by (rule example_create_succeeds)
        (simp_all add: full_create_def example_create_def or_nil_def find_missing_def
          findMany_ids_def example_db_def example_taxonomy_def)
    then obtain d3 v3 where
      f: "createSpace slugify_ascii example_env example_db (example_user ''u1'')
        (full_create hours) = (d3, SpaceJson v3 201)" by blast
    from description_never_null[of slugify_ascii example_env example_db "example_user ''u1''"
      "full_create hours" d3 v3 201 ?s rename_payload u "''taman-bungkul''" d2 v2 200] f
    have m3: "f_space v3 \<in> set (spaces d3)"
      and r3: "f_space v3 =
        \<lparr>space_id = cuid example_env,
         name = c_name (full_create hours),
         slug = ensureUniqueSlug slugify_ascii example_db (c_name (full_create hours)),
         alternateNames = (case c_alternateNames (full_create hours) of
                             Undefined \<Rightarrow> [] | Defined xs \<Rightarrow> xs),
         description = (case c_description (full_create hours) of
                          Undefined \<Rightarrow> [] | Defined None \<Rightarrow> [] | Defined (Some s) \<Rightarrow> s),
         activities = (case c_activities (full_create hours) of
                         Undefined \<Rightarrow> [] | Defined xs \<Rightarrow> xs),
         historicalContext = (case c_historicalContext (full_create hours) of
                                Undefined \<Rightarrow> None | Defined x \<Rightarrow> x),
         architecturalStyle = (case c_architecturalStyle (full_create hours) of
                                 Undefined \<Rightarrow> None | Defined x \<Rightarrow> x),
         operatingHours = (case c_operatingHours (full_create hours) of
                             Undefined \<Rightarrow> None | Defined x \<Rightarrow> x),
         entranceFee = (case c_entranceFee (full_create hours) of
                          Undefined \<Rightarrow> None | Defined x \<Rightarrow> x),
         contactInfo = (case c_contactInfo (full_create hours) of
                          Undefined \<Rightarrow> None | Defined x \<Rightarrow> x),
         accessibility = (case c_accessibility (full_create hours) of
                            Undefined \<Rightarrow> None | Defined x \<Rightarrow> x),
         typeId = c_typeId (full_create hours),
         categories = (case c_categoryIds (full_create hours) of
                         Undefined \<Rightarrow> [] | Defined ids \<Rightarrow> ids),
         features = (case c_featureIds (full_create hours) of
                       Undefined \<Rightarrow> [] | Defined ids \<Rightarrow> ids),
         submittedById = user_id (example_user ''u1''),
         createdAt = now example_env,
         updatedAt = now example_env\<rparr>"
      by blast+
    from r3 have "name (f_space v3) = ''Kebun Bibit'' \<and> slug (f_space v3) = ''kebun-bibit'' \<and>
      description (f_space v3) = ''A nursery garden.'' \<and>
      alternateNames (f_space v3) = [''Bibit Park''] \<and>
      activities (f_space v3) = [''walking''] \<and>
      historicalContext (f_space v3) = Some ''Opened in 1950.'' \<and>
      architecturalStyle (f_space v3) = None \<and>
      operatingHours (f_space v3) = Some hours \<and>
      entranceFee (f_space v3) = None \<and> contactInfo (f_space v3) = None \<and>
      typeId (f_space v3) = ''t1'' \<and>
      categories (f_space v3) = [''c2'', ''c1''] \<and> features (f_space v3) = [''f2''] \<and>
      submittedById (f_space v3) = ''u1''"
      by (simp add: full_create_def example_create_def example_user_def sl)
    with f m3 show ?thesis by blast
  qed
  from c p s 1 2 3 4 example_primary_key show ?thesis by blast
qed

text \<open>
  C9. When a successful update renames a Space to a different name whose slugification
  with \<open>lower\<close> and \<open>strict\<close> is the current slug of that Space, the Space collides
  with itself: its new slug is the slugification of the new name with the default options,
  a hyphen and a counter from 1 on, and differs from its current slug.
\<close>

theorem rename_to_own_slug_gets_suffix:
  assumes "updateSpace slugify e d caller identifier payload = (d', SpaceJson v st)"
    and "findFirst_id_or_slug d identifier = Some existing"
    and "primary_key d"
    and "u_name payload = Defined n"
    and "n \<noteq> name existing"
    and "slugify n (Some \<lparr>lower = True, strict = True\<rparr>) = slug existing"
  shows "\<exists>updated k. findUnique_id d' (space_id existing) = Some updated \<and> 1 \<le> k \<and>
     slug updated = slugify n None @ ''-'' @ decimal k \<and>
     slug updated = ensureUniqueSlug slugify d n \<and>
     slug updated \<noteq> slug existing"
proof -
  from updateSpace_result[OF assms(1,2,3)] obtain u where
    u: "prepareUpdate slugify d existing payload = Inr u"
    "findUnique_id d' (space_id existing) = Some (apply_update (now e) u existing)"
    by blast
  have sl: "slug (apply_update (now e) u existing) = ensureUniqueSlug slugify d n"
    using assms(4,5) by (simp add: apply_update_def assign_def prepareUpdate_fields(5)[OF u(1)])
  from findFirst_in[OF assms(2)] have used: "findUnique_slug d (slug existing) \<noteq> None"
    by (simp add: findUnique_slug_None)
  with assms(6) have "findUnique_slug d (slugify n (Some \<lparr>lower = True, strict = True\<rparr>)) \<noteq> None"
    by simp
  from slug_loop_retry[OF this, of 1 slugify n] obtain k where
    k: "1 \<le> k" "ensureUniqueSlug slugify d n = slugify n None @ ''-'' @ decimal k"
    unfolding ensureUniqueSlug_def retry_slug_def by force
  have "findUnique_slug d (ensureUniqueSlug slugify d n) = None"
    by (rule ensureUniqueSlug_free)
  with used have ne: "ensureUniqueSlug slugify d n \<noteq> slug existing" by auto
  from u(2) sl k ne show ?thesis by auto
qed

theorem rename_to_own_slug_gets_suffix_witness:
  "primary_key example_db \<and>
   slugify_ascii ''taman bungkul'' (Some \<lparr>lower = True, strict = True\<rparr>) = ''taman-bungkul'' \<and>
   (\<exists>d' v. updateSpace slugify_ascii example_env example_db (example_user ''u1'')
        ''taman-bungkul'' rename_payload = (d', SpaceJson v 200) \<and>
      (\<exists>updated. findUnique_id d' ''s1'' = Some updated \<and> slug updated = ''taman-bungkul-1''))"
proof -
  let ?s = "example_space ''s1'' ''Taman Bungkul'' ''taman-bungkul'' ''u1''"
  from example_rename obtain d' v where
    s: "updateSpace slugify_ascii example_env example_db (example_user ''u1'')
      ''taman-bungkul'' rename_payload = (d', SpaceJson v 200)" by blast
  have n: "u_name rename_payload = Defined ''taman bungkul''" "''taman bungkul'' \<noteq> name ?s"
    by (simp_all add: rename_payload_def no_changes_def example_space_def)
  have o: "slugify_ascii ''taman bungkul'' (Some \<lparr>lower = True, strict = True\<rparr>) = slug ?s"
    by (simp add: slugify_ascii_def lower_char_def example_space_def)
  from rename_to_own_slug_gets_suffix[OF s example_lookup(1) example_primary_key n o]
  have "\<exists>updated. findUnique_id d' ''s1'' = Some updated \<and> slug updated = ''taman-bungkul-1''"
    by (auto simp: example_space_def example_rename_slug)
  with s o example_primary_key show ?thesis by (auto simp: example_space_def)
qed

text \<open>
  C10 (as amended). For every existing Space whose slug is not the id of any Space, a
  delete with that slug as identifier is answered with 404 and leaves the store unchanged,
  although the lookup by id or slug, which the read and the update use, finds a Space
  with that slug.
\<close>

theorem delete_by_slug_not_found:
  assumes "target \<in> set (spaces d)" and "findUnique_id d (slug target) = None"
  shows "deleteSpace e d (Some caller) (slug target) = (d, ErrorJson ''Space not found.'' 404 404) \<and>
     (\<exists>found. findFirst_id_or_slug d (slug target) = Some found \<and> slug found = slug target \<and>
        getSpace d (slug target) = SpaceJson (formatSpace d found) 200)"
proof -
  from assms(1) have "findFirst_id_or_slug d (slug target) \<noteq> None"
    by (auto simp: findFirst_id_or_slug_def find_None_iff)
  then obtain found where f: "findFirst_id_or_slug d (slug target) = Some found" by auto
  then have "space_id found = slug target \<or> slug found = slug target" "found \<in> set (spaces d)"
    by (auto simp: findFirst_id_or_slug_def find_Some_iff)
  moreover from assms(2) have "\<forall>x\<in>set (spaces d). space_id x \<noteq> slug target"
    by (auto simp: findUnique_id_def find_None_iff)
  ultimately have "slug found = slug target" by auto
  with f assms(2) show ?thesis by (simp add: deleteSpace_def getSpace_def)
qed

theorem delete_by_slug_not_found_witness:
  "example_space ''s1'' ''Taman Bungkul'' ''taman-bungkul'' ''u1'' \<in> set (spaces example_db) \<and>
   findUnique_id example_db ''taman-bungkul'' = None \<and>
   deleteSpace example_env example_db (Some (example_user ''u1'')) ''taman-bungkul''
     = (example_db, ErrorJson ''Space not found.'' 404 404) \<and>
   findFirst_id_or_slug example_db ''taman-bungkul''
     = Some (example_space ''s1'' ''Taman Bungkul'' ''taman-bungkul'' ''u1'')"
proof -
  have m: "example_space ''s1'' ''Taman Bungkul'' ''taman-bungkul'' ''u1'' \<in> set (spaces example_db)"
    by (simp add: example_db_def)
  have s: "slug (example_space ''s1'' ''Taman Bungkul'' ''taman-bungkul'' ''u1'') = ''taman-bungkul''"
    by (simp add: example_space_def)
  have n: "findUnique_id example_db ''taman-bungkul'' = None"
    by (simp add: findUnique_id_def example_db_def example_space_def)
  from delete_by_slug_not_found[OF m, of example_env "example_user ''u1''"] n s example_lookup m
  show ?thesis by simp
qed

text \<open>
  The claim as first stated fails when the slug of a Space is the id of another Space of
  the same Author: the delete with that slug removes the other Space.
\<close>

theorem delete_by_slug_counterexample:
  "example_space ''s2'' ''s1'' ''s1'' ''u1'' \<in> set (spaces clash_db) \<and>
   deleteSpace example_env clash_db (Some (example_user ''u1''))
       (slug (example_space ''s2'' ''s1'' ''s1'' ''u1''))
     = (clash_db\<lparr>spaces := [example_space ''s2'' ''s1'' ''s1'' ''u1'']\<rparr>, NoBody 204)"
  by (simp add: deleteSpace_def space_delete_def findUnique_id_def clash_db_def example_db_def
      example_space_def example_env_def example_user_def)

end
